theory Spec2Isabelle
  imports Main "HOL-Library.Sublist"
begin

section \<open>Python text primitives used by the clients\<close>

text \<open>
  Python \<open>str\<close> values are modelled as \<^typ>\<open>string\<close>, one \<^typ>\<open>char\<close> per code point,
  which covers the code points 0..255. The functions below follow CPython's
  behaviour on that range.
\<close>

text \<open>\<open>str.isspace\<close> on one character: the whitespace code points below 256.\<close>

definition py_isspace :: "char \<Rightarrow> bool" where
  "py_isspace c \<longleftrightarrow> c \<in> set [CHR 0x09, CHR 0x0A, CHR 0x0B, CHR 0x0C, CHR 0x0D,
       CHR 0x1C, CHR 0x1D, CHR 0x1E, CHR 0x1F, CHR 0x20, CHR 0x85, CHR 0xA0]"

definition lstrip :: "string \<Rightarrow> string" where
  "lstrip s = dropWhile py_isspace s"

definition rstrip :: "string \<Rightarrow> string" where
  "rstrip s = rev (dropWhile py_isspace (rev s))"

definition strip :: "string \<Rightarrow> string" where
  "strip s = rstrip (lstrip s)"

text \<open>\<open>str.startswith\<close> and \<open>str.endswith\<close>.\<close>

definition startswith :: "string \<Rightarrow> string \<Rightarrow> bool" where
  "startswith s p \<longleftrightarrow> prefix p s"

definition endswith :: "string \<Rightarrow> string \<Rightarrow> bool" where
  "endswith s p \<longleftrightarrow> suffix p s"

text \<open>\<open>str.lower\<close>: the letters A-Z and the Latin-1 capitals move up by 32.\<close>

definition lower_char :: "char \<Rightarrow> char" where
  "lower_char c =
     (let n = (of_char c :: nat)
      in if (65 \<le> n \<and> n \<le> 90) \<or> (192 \<le> n \<and> n \<le> 222 \<and> n \<noteq> 215)
         then char_of (n + 32) else c)"

definition lower :: "string \<Rightarrow> string" where
  "lower s = map lower_char s"

text \<open>\<open>s.split(sep)\<close> for a one-character separator: never returns the empty list.\<close>

fun split_on :: "char \<Rightarrow> string \<Rightarrow> string \<Rightarrow> string list" where
  "split_on sep buf [] = [buf]"
| "split_on sep buf (c # cs) =
     (if c = sep then buf # split_on sep [] cs else split_on sep (buf @ [c]) cs)"

definition split_char :: "char \<Rightarrow> string \<Rightarrow> string list" where
  "split_char sep s = split_on sep [] s"

text \<open>\<open>sep.join(parts)\<close>.\<close>

fun join_with :: "string \<Rightarrow> string list \<Rightarrow> string" where
  "join_with sep [] = []"
| "join_with sep [x] = x"
| "join_with sep (x # y # ys) = x @ sep @ join_with sep (y # ys)"

text \<open>\<open>s.replace(old, new)\<close> for a non-empty \<open>old\<close>: leftmost, non-overlapping.\<close>

fun replace_all :: "string \<Rightarrow> string \<Rightarrow> string \<Rightarrow> string" where
  "replace_all old new [] = []"
| "replace_all old new (c # cs) =
     (if old \<noteq> [] \<and> prefix old (c # cs)
      then new @ replace_all old new (drop (length old) (c # cs))
      else c # replace_all old new cs)"

text \<open>\<open>str(n)\<close> for a natural number, in decimal.\<close>

definition digit_char :: "nat \<Rightarrow> char" where
  "digit_char d = char_of (48 + d)"

fun str_nat :: "nat \<Rightarrow> string" where
  "str_nat n = (if n < 10 then [digit_char n] else str_nat (n div 10) @ [digit_char (n mod 10)])"

declare str_nat.simps [simp del]

section \<open>posixpath\<close>

text \<open>\<open>os.path.isabs\<close>.\<close>

definition isabs :: "string \<Rightarrow> bool" where
  "isabs p \<longleftrightarrow> startswith p ''/''"

text \<open>\<open>os.path.join(a, b)\<close>.\<close>

definition path_join :: "string \<Rightarrow> string \<Rightarrow> string" where
  "path_join a b =
     (if startswith b ''/'' then b
      else if a = [] \<or> endswith a ''/'' then a @ b
      else a @ ''/'' @ b)"

text \<open>
  \<open>os.path.normpath\<close>: the loop over the components keeps a stack \<open>new_comps\<close>,
  here with append at the end as in the source.
\<close>

fun norm_comps :: "bool \<Rightarrow> string list \<Rightarrow> string list \<Rightarrow> string list" where
  "norm_comps initial_slashes new_comps [] = new_comps"
| "norm_comps initial_slashes new_comps (cmp # comps) =
     (if cmp = [] \<or> cmp = ''.'' then norm_comps initial_slashes new_comps comps
      else if cmp \<noteq> ''..'' \<or> (\<not> initial_slashes \<and> new_comps = [])
                \<or> (new_comps \<noteq> [] \<and> last new_comps = ''..'')
           then norm_comps initial_slashes (new_comps @ [cmp]) comps
      else if new_comps \<noteq> [] then norm_comps initial_slashes (butlast new_comps) comps
      else norm_comps initial_slashes new_comps comps)"

definition normpath :: "string \<Rightarrow> string" where
  "normpath path =
     (if path = [] then ''.''
      else
        let initial_slashes =
              (if startswith path ''/''
               then (if startswith path ''//'' \<and> \<not> startswith path ''///'' then 2 else 1)
               else (0::nat));
            comps = norm_comps (initial_slashes \<noteq> 0) [] (split_char CHR ''/'' path);
            p = replicate initial_slashes CHR ''/'' @ join_with ''/'' comps
        in if p = [] then ''.'' else p)"

text \<open>
  \<open>os.path.expanduser\<close>. The password database and \<open>$HOME\<close> are the environment:
  \<open>home\<close> is the current user's home (\<open>None\<close> when it cannot be determined),
  \<open>user_home\<close> looks another user up.
\<close>

fun find_slash :: "nat \<Rightarrow> string \<Rightarrow> nat" where
  "find_slash i [] = i"
| "find_slash i (c # cs) = (if c = CHR ''/'' then i else find_slash (Suc i) cs)"

definition rstrip_slash :: "string \<Rightarrow> string" where
  "rstrip_slash s = rev (dropWhile (\<lambda>c. c = CHR ''/'') (rev s))"

definition expanduser :: "string option \<Rightarrow> (string \<Rightarrow> string option) \<Rightarrow> string \<Rightarrow> string" where
  "expanduser home user_home path =
     (if \<not> startswith path ''~'' then path
      else
        let i = find_slash 1 (drop 1 path);
            userhome = (if i = 1 then home else user_home (take (i - 1) (drop 1 path)))
        in case userhome of
             None \<Rightarrow> path
           | Some h \<Rightarrow> (let r = rstrip_slash h @ drop i path in if r = [] then ''/'' else r))"

section \<open>LocalClient\<close>

text \<open>
  The client object. \<open>running_process\<close> holds the process id of the \<open>Popen\<close>
  handle while a streamed command runs.
\<close>

record local_client =
  local_connected :: bool
  local_current_directory :: string
  local_running_process :: "nat option"

datatype signal = SIGINT | SIGKILL

text \<open>What \<open>os.chdir(path)\<close> followed by \<open>os.getcwd()\<close> does.\<close>

datatype chdir_result =
    is_Chdir_ok: Chdir_ok string
  | File_not_found
  | Permission_denied
  | Other_error string

datatype run_result =
    Run_completed string string
  | Run_timeout
  | Run_raises string

datatype popen_result =
    Popen_lines "string list"
  | Popen_raises string

text \<open>The operating system as the client sees it.\<close>

record local_os =
  os_home :: "string option"
  os_user_home :: "string \<Rightarrow> string option"
  os_chdir :: "string \<Rightarrow> chdir_result"
  os_run :: "string \<Rightarrow> string \<Rightarrow> nat \<Rightarrow> run_result"
  os_popen :: "string \<Rightarrow> string \<Rightarrow> popen_result"
  os_killpg :: "nat \<Rightarrow> signal \<Rightarrow> bool"
  os_terminate :: "nat \<Rightarrow> bool"
  os_kill :: "nat \<Rightarrow> bool"

text \<open>The calls a client issues, in order.\<close>

datatype os_call =
    Call_chdir string
  | Call_run string string nat
  | Call_popen string string
  | Call_sink string
  | Call_killpg nat signal
  | Call_terminate nat
  | Call_kill nat

text \<open>\<open>LocalClient._execute_streaming\<close>.\<close>

definition local_execute_streaming ::
  "local_os \<Rightarrow> string \<Rightarrow> local_client \<Rightarrow> (bool \<times> string) \<times> local_client \<times> os_call list" where
  "local_execute_streaming os command st =
     (let cwd = local_current_directory st
      in case os_popen os command cwd of
           Popen_raises e \<Rightarrow>
             ((False, e), st\<lparr>local_running_process := None\<rparr>, [Call_popen command cwd])
         | Popen_lines ls \<Rightarrow>
             ((True, concat ls), st\<lparr>local_running_process := None\<rparr>,
              Call_popen command cwd # map Call_sink (filter (\<lambda>l. l \<noteq> []) ls)))"

text \<open>
  The path that the \<open>cd\<close> branch of \<open>LocalClient.execute_command\<close> changes into:
  the text after the first three characters, stripped, with the user's home
  expanded, made absolute against the tracked directory.
\<close>

definition local_cd_path :: "local_os \<Rightarrow> local_client \<Rightarrow> string \<Rightarrow> string" where
  "local_cd_path os st command_stripped =
     (let path0 = strip (drop 3 command_stripped);
          path1 = (if path0 = [] then expanduser (os_home os) (os_user_home os) ''~''
                   else expanduser (os_home os) (os_user_home os) path0)
      in if \<not> isabs path1 then path_join (local_current_directory st) path1 else path1)"

text \<open>
  \<open>LocalClient.execute_command\<close>. \<open>streaming\<close> says whether an output callback was
  passed; \<open>timeout\<close> is the optional timeout in seconds.
\<close>

definition local_execute_command ::
  "local_os \<Rightarrow> string \<Rightarrow> bool \<Rightarrow> nat option \<Rightarrow> local_client
     \<Rightarrow> (bool \<times> string) \<times> local_client \<times> os_call list" where
  "local_execute_command os command streaming timeout st =
     (let command_stripped = strip command
      in if startswith (lower command_stripped) ''cd '' then
           let path = local_cd_path os st command_stripped
           in case os_chdir os path of
                Chdir_ok cwd \<Rightarrow>
                  ((True, []), st\<lparr>local_current_directory := cwd\<rparr>, [Call_chdir path])
              | File_not_found \<Rightarrow>
                  ((True, ''cd: '' @ path @ '': No such file or directory''), st, [Call_chdir path])
              | Permission_denied \<Rightarrow>
                  ((True, ''cd: '' @ path @ '': Permission denied''), st, [Call_chdir path])
              | Other_error e \<Rightarrow>
                  ((True, ''cd: '' @ e), st, [Call_chdir path])
         else if streaming then local_execute_streaming os command st
         else
           let t = (case timeout of None \<Rightarrow> 30 | Some n \<Rightarrow> if n = 0 then 30 else n);
               cwd = local_current_directory st
           in case os_run os command cwd t of
                Run_completed out err \<Rightarrow> ((True, out @ err), st, [Call_run command cwd t])
              | Run_timeout \<Rightarrow>
                  ((False, ''Command timed out (30 seconds)''), st, [Call_run command cwd t])
              | Run_raises e \<Rightarrow> ((False, e), st, [Call_run command cwd t]))"

text \<open>\<open>LocalClient.interrupt_command\<close> and \<open>LocalClient.kill_command\<close>.\<close>

definition local_interrupt_command ::
  "local_os \<Rightarrow> local_client \<Rightarrow> bool \<times> local_client \<times> os_call list" where
  "local_interrupt_command os st =
     (case local_running_process st of
        None \<Rightarrow> (False, st, [])
      | Some pid \<Rightarrow>
          if os_killpg os pid SIGINT then (True, st, [Call_killpg pid SIGINT])
          else if os_terminate os pid then (True, st, [Call_killpg pid SIGINT, Call_terminate pid])
          else (False, st, [Call_killpg pid SIGINT, Call_terminate pid]))"

definition local_kill_command ::
  "local_os \<Rightarrow> local_client \<Rightarrow> bool \<times> local_client \<times> os_call list" where
  "local_kill_command os st =
     (case local_running_process st of
        None \<Rightarrow> (False, st, [])
      | Some pid \<Rightarrow>
          if os_killpg os pid SIGKILL then (True, st, [Call_killpg pid SIGKILL])
          else if os_kill os pid then (True, st, [Call_killpg pid SIGKILL, Call_kill pid])
          else (False, st, [Call_killpg pid SIGKILL, Call_kill pid]))"

section \<open>shlex and the command splitter\<close>

text \<open>
  \<open>shlex.quote\<close>: a string made only of the characters \<open>[A-Za-z0-9_@%+=:,./-]\<close> is
  returned as it is; any other is wrapped in single quotes.
\<close>

definition shlex_safe_char :: "char \<Rightarrow> bool" where
  "shlex_safe_char c =
     (let n = (of_char c :: nat)
      in (48 \<le> n \<and> n \<le> 57) \<or> (65 \<le> n \<and> n \<le> 90) \<or> (97 \<le> n \<and> n \<le> 122)
         \<or> c \<in> set ''_@%+=:,./-'')"

definition shlex_quote :: "string \<Rightarrow> string" where
  "shlex_quote s =
     (if s = [] then [CHR 0x27, CHR 0x27]
      else if list_all shlex_safe_char s then s
      else [CHR 0x27]
           @ replace_all [CHR 0x27] [CHR 0x27, CHR 0x22, CHR 0x27, CHR 0x22, CHR 0x27] s
           @ [CHR 0x27])"

text \<open>
  \<open>shlex.split\<close> (POSIX mode, whitespace splitting, no comments): the lexer's
  state is \<open>' '\<close> (between tokens), \<open>'a'\<close> (inside a word), a quote character, or
  the escape character together with the state to return to. \<open>None\<close> stands for
  the \<open>ValueError\<close> of an unclosed quotation or a dangling escape.
\<close>

datatype shlex_state = In_space | In_word | In_quote char | In_escape shlex_state

definition shlex_whitespace :: "char \<Rightarrow> bool" where
  "shlex_whitespace c \<longleftrightarrow> c \<in> set [CHR 0x20, CHR 0x09, CHR 0x0D, CHR 0x0A]"

definition shlex_is_quote :: "char \<Rightarrow> bool" where
  "shlex_is_quote c \<longleftrightarrow> c = CHR 0x27 \<or> c = CHR 0x22"

fun shlex_scan :: "shlex_state \<Rightarrow> bool \<Rightarrow> string \<Rightarrow> string \<Rightarrow> string list option" where
  "shlex_scan In_space quoted token [] = Some []"
| "shlex_scan In_word quoted token [] = (if token \<noteq> [] \<or> quoted then Some [token] else Some [])"
| "shlex_scan (In_quote q) quoted token [] = None"
| "shlex_scan (In_escape es) quoted token [] = None"
| "shlex_scan In_space quoted token (c # cs) =
     (if shlex_whitespace c then shlex_scan In_space quoted token cs
      else if c = CHR 0x5C then shlex_scan (In_escape In_word) quoted token cs
      else if shlex_is_quote c then shlex_scan (In_quote c) quoted token cs
      else shlex_scan In_word quoted [c] cs)"
| "shlex_scan (In_quote q) quoted token (c # cs) =
     (if c = q then shlex_scan In_word True token cs
      else if c = CHR 0x5C \<and> q = CHR 0x22 then shlex_scan (In_escape (In_quote q)) True token cs
      else shlex_scan (In_quote q) True (token @ [c]) cs)"
| "shlex_scan (In_escape es) quoted token (c # cs) =
     (case es of
        In_quote q \<Rightarrow>
          (if c \<noteq> CHR 0x5C \<and> c \<noteq> q
           then shlex_scan es quoted (token @ [CHR 0x5C] @ [c]) cs
           else shlex_scan es quoted (token @ [c]) cs)
      | _ \<Rightarrow> shlex_scan es quoted (token @ [c]) cs)"
| "shlex_scan In_word quoted token (c # cs) =
     (if shlex_whitespace c then
        (if token \<noteq> [] \<or> quoted
         then map_option (\<lambda>ts. token # ts) (shlex_scan In_space False [] cs)
         else shlex_scan In_space quoted token cs)
      else if shlex_is_quote c then shlex_scan (In_quote c) quoted token cs
      else if c = CHR 0x5C then shlex_scan (In_escape In_word) quoted token cs
      else shlex_scan In_word quoted (token @ [c]) cs)"

definition shlex_split :: "string \<Rightarrow> string list option" where
  "shlex_split s = shlex_scan In_space False [] s"

text \<open>
  \<open>re.split(r'(;|&&)', cmd)\<close>: the text between the separators and the separators
  themselves, alternating.
\<close>

fun re_split_seps :: "string \<Rightarrow> string \<Rightarrow> string list" where
  "re_split_seps buf [] = [buf]"
| "re_split_seps buf (c # cs) =
     (if c = CHR '';'' then buf # '';'' # re_split_seps [] cs
      else if c = CHR ''&'' \<and> cs \<noteq> [] \<and> hd cs = CHR ''&''
           then buf # ''&&'' # re_split_seps [] (tl cs)
      else re_split_seps (buf @ [c]) cs)"

text \<open>The local function \<open>split_commands\<close> of \<open>SSHClient.execute_command\<close>.\<close>

fun split_commands_loop :: "string list \<Rightarrow> string \<Rightarrow> string list \<Rightarrow> string list" where
  "split_commands_loop result buf [] =
     (if strip buf \<noteq> [] then result @ [strip buf] else result)"
| "split_commands_loop result buf (part # parts) =
     (if part = '';'' \<or> part = ''&&''
      then split_commands_loop
             ((if strip buf \<noteq> [] then result @ [strip buf] else result) @ [part]) [] parts
      else split_commands_loop result (buf @ part) parts)"

definition split_commands :: "string \<Rightarrow> string list" where
  "split_commands cmd = split_commands_loop [] [] (re_split_seps [] cmd)"

text \<open>
  \<open>str.splitlines\<close>: the line boundaries below code point 256, with \<open>\r\n\<close> as one
  boundary; no empty last line.
\<close>

definition is_linebreak :: "char \<Rightarrow> bool" where
  "is_linebreak c \<longleftrightarrow> c \<in> set [CHR 0x0A, CHR 0x0B, CHR 0x0C, CHR 0x0D,
       CHR 0x1C, CHR 0x1D, CHR 0x1E, CHR 0x85]"

fun splitlines_from :: "string \<Rightarrow> string \<Rightarrow> string list" where
  "splitlines_from buf [] = (if buf = [] then [] else [buf])"
| "splitlines_from buf (c # cs) =
     (if c = CHR 0x0D \<and> cs \<noteq> [] \<and> hd cs = CHR 0x0A then buf # splitlines_from [] (tl cs)
      else if is_linebreak c then buf # splitlines_from [] cs
      else splitlines_from (buf @ [c]) cs)"

definition splitlines :: "string \<Rightarrow> string list" where
  "splitlines s = splitlines_from [] s"

section \<open>SSHClient\<close>

text \<open>
  The client object: \<open>client\<close> is the transport handle (\<open>None\<close> before \<open>connect\<close>),
  \<open>current_directory\<close> is \<open>None\<close> while unknown, \<open>running_channel\<close> is the channel
  of the streamed command in flight.
\<close>

record ssh_client =
  ssh_client_handle :: "nat option"
  ssh_connected :: bool
  ssh_current_directory :: "string option"
  ssh_running_channel :: "nat option"

text \<open>
  What \<open>client.exec_command(cmd)\<close> with both streams read and decoded gives:
  the two texts, or an exception.
\<close>

datatype exec_result = Exec_output string string | Exec_raises string

datatype stream_result = Stream_chunks "string list" | Stream_raises string

text \<open>
  The remote side. \<open>remote_exec n cmd\<close> is the answer to the \<open>n\<close>-th
  \<open>exec_command\<close> of one \<open>execute_command\<close> call (counted from 0).
\<close>

record ssh_remote =
  remote_exec :: "nat \<Rightarrow> string \<Rightarrow> exec_result"
  remote_stream :: "string \<Rightarrow> stream_result"
  remote_send :: "nat \<Rightarrow> bool"
  remote_close :: "nat \<Rightarrow> bool"

datatype ssh_call =
    Call_probe string
  | Call_exec string
  | Call_stream string
  | Call_stream_sink string
  | Call_send_ctrl_c nat
  | Call_close nat

text \<open>Python truthiness of an optional string: \<open>None\<close> and \<open>''\<close> are false.\<close>

definition truthy :: "string option \<Rightarrow> bool" where
  "truthy d \<longleftrightarrow> (case d of None \<Rightarrow> False | Some s \<Rightarrow> s \<noteq> [])"

text \<open>
  The probe that resolves a \<open>cd\<close> target, and the path taken when the probe
  reports failure; both depend on whether a directory is known.
\<close>

definition probe_command :: "string option \<Rightarrow> string \<Rightarrow> string" where
  "probe_command last_dir cd_target =
     (if truthy last_dir
      then ''cd '' @ shlex_quote (the last_dir) @ '' && cd '' @ shlex_quote cd_target @ '' && pwd''
      else ''cd '' @ shlex_quote cd_target @ '' && pwd'')"

definition path_estimate :: "string option \<Rightarrow> string \<Rightarrow> string" where
  "path_estimate last_dir cd_target =
     (if truthy last_dir then normpath (path_join (the last_dir) cd_target)
      else normpath cd_target)"

text \<open>
  One \<open>cd\<close> segment of the tracking loop: the body of the \<open>try\<close> block. The result is
  the new \<open>last_dir\<close>, whether the loop breaks, and the probe issued (if any). An
  exception inside the block is swallowed and leaves \<open>last_dir\<close> as it was.
\<close>

definition track_cd ::
  "ssh_remote \<Rightarrow> nat \<Rightarrow> string \<Rightarrow> string option \<Rightarrow> string option \<times> bool \<times> ssh_call list" where
  "track_cd remote n part last_dir =
     (case shlex_split part of
        None \<Rightarrow> (last_dir, False, [])
      | Some cd_parts \<Rightarrow>
          if length cd_parts \<ge> 2 then
            let cd_target = cd_parts ! 1;
                exec_cmd = probe_command last_dir cd_target
            in case remote_exec remote n exec_cmd of
                 Exec_raises e \<Rightarrow> (last_dir, False, [Call_probe exec_cmd])
               | Exec_output output error \<Rightarrow>
                   if output \<noteq> [] \<and> error = [] then
                     (case splitlines (strip output) of
                        [] \<Rightarrow> (last_dir, False, [Call_probe exec_cmd])
                      | l # ls \<Rightarrow> (Some (last (l # ls)), False, [Call_probe exec_cmd]))
                   else (Some (path_estimate last_dir cd_target), True, [Call_probe exec_cmd])
          else (last_dir, False, []))"

text \<open>
  The loop \<open>for part in cmds\<close>: its state is \<open>last_dir\<close>, \<open>only_cd\<close> and the probes
  issued so far. The last component of the result says whether the loop was left
  by \<open>break\<close>.
\<close>

fun track_loop ::
  "ssh_remote \<Rightarrow> string list \<Rightarrow> string option \<Rightarrow> bool \<Rightarrow> ssh_call list
     \<Rightarrow> string option \<times> bool \<times> ssh_call list \<times> bool" where
  "track_loop remote [] last_dir only_cd calls = (last_dir, only_cd, calls, False)"
| "track_loop remote (part # parts) last_dir only_cd calls =
     (if part = '';'' \<or> part = ''&&'' then track_loop remote parts last_dir only_cd calls
      else if startswith part ''cd '' then
        (case track_cd remote (length calls) part last_dir of
           (last_dir', stop, probes) \<Rightarrow>
             if stop then (last_dir', only_cd, calls @ probes, True)
             else track_loop remote parts last_dir' only_cd (calls @ probes))
      else track_loop remote parts last_dir False calls)"

text \<open>\<open>SSHClient._execute_streaming\<close>.\<close>

definition ssh_execute_streaming ::
  "ssh_remote \<Rightarrow> string \<Rightarrow> ssh_client \<Rightarrow> (bool \<times> string option) \<times> ssh_client \<times> ssh_call list" where
  "ssh_execute_streaming remote command st =
     (case remote_stream remote command of
        Stream_raises e \<Rightarrow>
          ((False, Some e), st\<lparr>ssh_running_channel := None\<rparr>, [Call_stream command])
      | Stream_chunks chunks \<Rightarrow>
          ((True, Some (concat chunks)), st\<lparr>ssh_running_channel := None\<rparr>,
           Call_stream command # map Call_stream_sink (filter (\<lambda>c. c \<noteq> []) chunks)))"

text \<open>
  \<open>SSHClient.execute_command\<close>. The output is optional because the single-\<open>cd\<close>
  path returns \<open>last_dir\<close>, which may be \<open>None\<close>.
\<close>

definition ssh_execute_command ::
  "ssh_remote \<Rightarrow> string \<Rightarrow> bool \<Rightarrow> ssh_client
     \<Rightarrow> (bool \<times> string option) \<times> ssh_client \<times> ssh_call list" where
  "ssh_execute_command remote command streaming st =
     (if \<not> ssh_connected st \<or> ssh_client_handle st = None
      then ((False, Some ''Not connected''), st, [])
      else
        let base_dir = ssh_current_directory st;
            cmds = split_commands command
        in case track_loop remote cmds base_dir True [] of
             (last_dir, only_cd, probes, stopped) \<Rightarrow>
               let st1 = (if truthy last_dir then st\<lparr>ssh_current_directory := last_dir\<rparr> else st)
               in if only_cd \<and> length cmds = 1 \<and> startswith (cmds ! 0) ''cd ''
                  then ((True, last_dir), st1, probes)
                  else
                    let full_command =
                          (if truthy (ssh_current_directory st1)
                           then ''cd '' @ shlex_quote (the (ssh_current_directory st1)) @ '' && ''
                                @ command
                           else command)
                    in if streaming then
                         (case ssh_execute_streaming remote full_command st1 of
                            (r, st2, calls) \<Rightarrow> (r, st2, probes @ calls))
                       else
                         (case remote_exec remote (length probes) full_command of
                            Exec_raises e \<Rightarrow>
                              ((False, Some e), st1, probes @ [Call_exec full_command])
                          | Exec_output output error \<Rightarrow>
                              ((True, Some (if output \<noteq> [] then output else error)), st1,
                               probes @ [Call_exec full_command])))"

text \<open>\<open>SSHClient.interrupt_command\<close> and \<open>SSHClient.kill_command\<close>.\<close>

definition ssh_interrupt_command ::
  "ssh_remote \<Rightarrow> ssh_client \<Rightarrow> bool \<times> ssh_client \<times> ssh_call list" where
  "ssh_interrupt_command remote st =
     (case ssh_running_channel st of
        None \<Rightarrow> (False, st, [])
      | Some ch \<Rightarrow>
          if remote_send remote ch then (True, st, [Call_send_ctrl_c ch])
          else (False, st, [Call_send_ctrl_c ch]))"

definition ssh_kill_command ::
  "ssh_remote \<Rightarrow> ssh_client \<Rightarrow> bool \<times> ssh_client \<times> ssh_call list" where
  "ssh_kill_command remote st =
     (case ssh_running_channel st of
        None \<Rightarrow> (False, st, [])
      | Some ch \<Rightarrow>
          if remote_close remote ch
          then (True, st\<lparr>ssh_running_channel := None\<rparr>, [Call_close ch])
          else (False, st, [Call_close ch]))"

section \<open>The window: response parsing, output truncation, prompt\<close>

definition newline :: string where
  "newline = [CHR 0x0A]"

text \<open>
  \<open>AITerminalWindow.parse_ai_response\<close>: the loop over the lines with its four
  variables, then the function itself.
\<close>

fun parse_loop ::
  "string list \<Rightarrow> string \<Rightarrow> string \<Rightarrow> string \<Rightarrow> bool \<Rightarrow> string \<times> string \<times> string" where
  "parse_loop [] decision command ai_message response_started = (decision, command, ai_message)"
| "parse_loop (line # lines) decision command ai_message response_started =
     (if startswith line ''DECISION:''
      then parse_loop lines (strip (replace_all ''DECISION:'' [] line)) command ai_message False
      else if startswith line ''COMMAND:''
      then parse_loop lines decision (strip (replace_all ''COMMAND:'' [] line)) ai_message False
      else if startswith line ''RESPONSE:''
      then parse_loop lines decision command (strip (replace_all ''RESPONSE:'' [] line)) True
      else if response_started
      then parse_loop lines decision command (ai_message @ newline @ line) response_started
      else parse_loop lines decision command ai_message response_started)"

definition parse_ai_response :: "string \<Rightarrow> string \<times> string \<times> string" where
  "parse_ai_response response =
     parse_loop (split_char CHR 0x0A (strip response)) ''CONVERSATION'' ''NONE'' [] False"

text \<open>The module constant.\<close>

definition MAX_OUTPUT_CHARS :: int where
  "MAX_OUTPUT_CHARS = 150000"

text \<open>
  The saved setting \<open>max_output_chars\<close>: absent, a value that \<open>int()\<close> converts, or a
  value on which \<open>int()\<close> raises.
\<close>

datatype max_output_setting = Setting_absent | Setting_int int | Setting_not_a_number

text \<open>The limit that \<open>process_ai_command\<close> computes from the setting.\<close>

definition effective_max_output :: "max_output_setting \<Rightarrow> int" where
  "effective_max_output s =
     (case s of
        Setting_absent \<Rightarrow> (if MAX_OUTPUT_CHARS < 0 then MAX_OUTPUT_CHARS else MAX_OUTPUT_CHARS)
      | Setting_int max_output \<Rightarrow> (if max_output < 0 then MAX_OUTPUT_CHARS else max_output)
      | Setting_not_a_number \<Rightarrow> MAX_OUTPUT_CHARS)"

text \<open>The slice \<open>s[:n]\<close>, for a negative \<open>n\<close> counted from the end.\<close>

definition slice_to :: "int \<Rightarrow> string \<Rightarrow> string" where
  "slice_to n s = (if 0 \<le> n then take (nat n) s else take (length s - nat (- n)) s)"

definition truncate_output :: "int \<Rightarrow> string \<Rightarrow> string" where
  "truncate_output max_output output =
     (if int (length output) > max_output
      then slice_to max_output output @ newline @ ''... (output truncated, ''
           @ str_nat (length output) @ '' chars total)''
      else output)"

text \<open>One entry of \<open>conversation_history\<close>.\<close>

record turn =
  role :: string
  content :: string

text \<open>The slice \<open>conversation_history[-5:]\<close>.\<close>

definition last_turns :: "turn list \<Rightarrow> turn list" where
  "last_turns history = drop (length history - 5) history"

text \<open>The loop that builds \<open>context\<close> in \<open>process_ai_command\<close>.\<close>

fun context_loop :: "turn list \<Rightarrow> string \<Rightarrow> string" where
  "context_loop [] context = context"
| "context_loop (msg # msgs) context =
     context_loop msgs (context @ role msg @ '': '' @ content msg @ newline)"

definition build_context :: "turn list \<Rightarrow> string" where
  "build_context history =
     (if history \<noteq> []
      then context_loop (last_turns history)
             (newline @ newline @ ''Previous conversation context:'' @ newline)
      else [])"

text \<open>The prompt template of \<open>process_ai_command\<close>, line by line.\<close>

definition build_prompt :: "string \<Rightarrow> string \<Rightarrow> string \<Rightarrow> string \<Rightarrow> string" where
  "build_prompt ai_name ai_role context request_text =
     ''You are '' @ ai_name @ '', a '' @ ai_role
       @ ''. YOU HAVE FULL SSH ACCESS TO THE SERVER and can run any command.'' @ newline
     @ context @ newline
     @ newline
     @ ''A user has now requested: '' @ [CHR 0x22] @ request_text @ [CHR 0x22] @ newline
     @ newline
     @ ''IMPORTANT INSTRUCTIONS:'' @ newline
     @ ''- You MUST respond in EXACTLY this format, with each line starting with the exact keywords below''
       @ newline
     @ ''- Do NOT use JSON, do NOT use code blocks, do NOT deviate from this format'' @ newline
     @ ''- Each response must have these 3 lines:'' @ newline
     @ newline
     @ ''DECISION: [COMMAND if user wants you to run something, or CONVERSATION if just talking]''
       @ newline
     @ ''COMMAND: [If DECISION is COMMAND, write the single shell command. If DECISION is CONVERSATION, write NONE]''
       @ newline
     @ ''RESPONSE: [Your analysis or conversation response]'' @ newline
     @ newline
     @ ''Example 1 - Running a command:'' @ newline
     @ ''User: '' @ [CHR 0x22] @ ''show me the current directory'' @ [CHR 0x22] @ newline
     @ ''DECISION: COMMAND'' @ newline
     @ ''COMMAND: pwd'' @ newline
     @ ''RESPONSE: I'' @ [CHR 0x27] @ ''ll show you the current directory using the pwd command.''
       @ newline
     @ newline
     @ ''Example 2 - Conversation:'' @ newline
     @ ''User: '' @ [CHR 0x22] @ ''hello'' @ [CHR 0x22] @ newline
     @ ''DECISION: CONVERSATION'' @ newline
     @ ''COMMAND: NONE'' @ newline
     @ ''RESPONSE: Hello! I'' @ [CHR 0x27] @ ''m '' @ ai_name @ '', your '' @ ai_role
       @ ''. How can I help you today?'' @ newline"

section \<open>The window: state, completion, dispatch\<close>

text \<open>
  The fields of \<open>AITerminalWindow\<close> that the completion and dispatch code reads and
  writes. \<open>chat_log\<close> is the chat buffer as a list of (role, message, tag), without
  the time stamps; the two \<open>sensitive\<close> flags are those of the entry and of the
  send button.
\<close>

record window =
  conversation_history :: "turn list"
  chat_log :: "(string \<times> string \<times> string) list"
  input_text :: string
  input_position :: nat
  input_sensitive :: bool
  send_sensitive :: bool
  completions :: "string list"
  completion_index :: nat
  last_completion_text :: string

definition append_chat_message :: "string \<Rightarrow> string \<Rightarrow> string \<Rightarrow> window \<Rightarrow> window" where
  "append_chat_message sender message tag w = w\<lparr>chat_log := chat_log w @ [(sender, message, tag)]\<rparr>"

definition re_enable_input :: "window \<Rightarrow> window" where
  "re_enable_input w = w\<lparr>send_sensitive := True, input_sensitive := True\<rparr>"

definition on_ai_error :: "string \<Rightarrow> window \<Rightarrow> window" where
  "on_ai_error error_msg w = re_enable_input (append_chat_message ''ERROR'' error_msg ''system'' w)"

text \<open>\<open>str.split()\<close> without argument: the words between runs of whitespace.\<close>

fun split_words :: "string \<Rightarrow> string \<Rightarrow> string list" where
  "split_words buf [] = (if buf = [] then [] else [buf])"
| "split_words buf (c # cs) =
     (if py_isspace c
      then (if buf = [] then split_words [] cs else buf # split_words [] cs)
      else split_words (buf @ [c]) cs)"

text \<open>\<open>AITerminalWindow.apply_completion\<close>.\<close>

definition apply_completion :: "string \<Rightarrow> string \<Rightarrow> string \<Rightarrow> window \<Rightarrow> window" where
  "apply_completion completion original_text partial_word w =
     (let cursor_pos = input_position w;
          text_before = take cursor_pos original_text;
          text_after = drop cursor_pos original_text
      in if partial_word \<noteq> [] then
           let prefix_text = take (length text_before - length partial_word) text_before
           in w\<lparr>input_text := prefix_text @ completion @ text_after,
                input_position := length prefix_text + length completion\<rparr>
         else
           w\<lparr>input_text := text_before @ completion @ text_after,
             input_position := cursor_pos + length completion\<rparr>)"

text \<open>\<open>AITerminalWindow.apply_completions\<close>.\<close>

definition apply_completions :: "string list \<Rightarrow> string \<Rightarrow> string \<Rightarrow> window \<Rightarrow> window" where
  "apply_completions cs original_text partial_word w =
     (let w1 = w\<lparr>completions := cs, completion_index := 0,
                 last_completion_text := original_text\<rparr>
      in if cs \<noteq> [] then
           (if length cs = 1 then apply_completion (cs ! 0) original_text partial_word w1
            else append_chat_message ''SYSTEM''
                   (str_nat (length cs) @ '' completions available. Press Tab again to cycle.'')
                   ''system''
                   (apply_completion (cs ! 0) original_text partial_word w1))
         else w1)"

text \<open>
  \<open>AITerminalWindow.handle_tab_completion\<close>. \<open>connected\<close> says whether a connected
  client is present; \<open>get_completions\<close> is the client's completion lookup, whose
  answer is applied as soon as it arrives.
\<close>

definition handle_tab_completion :: "bool \<Rightarrow> (string \<Rightarrow> string list) \<Rightarrow> window \<Rightarrow> window" where
  "handle_tab_completion connected get_completions w =
     (if \<not> connected then w
      else
        let current_text = input_text w;
            cursor_pos = input_position w;
            text_before_cursor = take cursor_pos current_text;
            words = split_words [] text_before_cursor
        in if words = [] then w
           else
             let partial_word = last words
             in if current_text \<noteq> last_completion_text w \<or> completions w = []
                then apply_completions (get_completions partial_word) current_text partial_word w
                else
                  let i = (completion_index w + 1) mod length (completions w)
                  in apply_completion (completions w ! i) current_text partial_word
                       (w\<lparr>completion_index := i\<rparr>))"

text \<open>Pressing Tab \<open>n\<close> times; the texts shown in the entry after each press.\<close>

fun press_tab :: "nat \<Rightarrow> bool \<Rightarrow> (string \<Rightarrow> string list) \<Rightarrow> window \<Rightarrow> string list" where
  "press_tab 0 connected get_completions w = []"
| "press_tab (Suc n) connected get_completions w =
     (let w' = handle_tab_completion connected get_completions w
      in input_text w' # press_tab n connected get_completions w')"

text \<open>The active client, \<open>self.ssh_client\<close>: the local or the remote one.\<close>

datatype backend = Local_backend local_client | Ssh_backend ssh_client

definition backend_connected :: "backend \<Rightarrow> bool" where
  "backend_connected b =
     (case b of Local_backend c \<Rightarrow> local_connected c | Ssh_backend c \<Rightarrow> ssh_connected c)"

definition backend_current_directory :: "backend \<Rightarrow> string option" where
  "backend_current_directory b =
     (case b of Local_backend c \<Rightarrow> Some (local_current_directory c)
              | Ssh_backend c \<Rightarrow> ssh_current_directory c)"

text \<open>\<open>self.ssh_client.execute_command(command)\<close>, without callback and timeout.\<close>

definition backend_execute ::
  "local_os \<Rightarrow> ssh_remote \<Rightarrow> string \<Rightarrow> backend \<Rightarrow> (bool \<times> string option) \<times> backend" where
  "backend_execute os remote command b =
     (case b of
        Local_backend c \<Rightarrow>
          (case local_execute_command os command False None c of
             ((ok, out), c', calls) \<Rightarrow> ((ok, Some out), Local_backend c'))
      | Ssh_backend c \<Rightarrow>
          (case ssh_execute_command remote command False c of
             ((ok, out), c', calls) \<Rightarrow> ((ok, out), Ssh_backend c')))"

text \<open>The model client's \<open>generate(prompt)\<close>: a pair (success, text), or an exception.\<close>

datatype generate_result = Generate_returns bool string | Generate_raises string

record settings =
  ai_name :: string
  ai_role :: string
  max_output_chars :: max_output_setting

text \<open>
  \<open>str.upper\<close>: the letters a-z and the Latin-1 small letters move down by 32, and
  the sharp s (0xDF) becomes \<open>SS\<close>. The capitals of 0xFF and of the micro sign 0xB5
  lie beyond code point 255, outside the texts modelled here; these two are left
  as they are.
\<close>

definition upper_char :: "char \<Rightarrow> string" where
  "upper_char c =
     (let n = (of_char c :: nat)
      in if (97 \<le> n \<and> n \<le> 122) \<or> (224 \<le> n \<and> n \<le> 254 \<and> n \<noteq> 247)
         then [char_of (n - 32)]
         else if n = 223 then ''SS''
         else [c])"

definition upper :: "string \<Rightarrow> string" where
  "upper s = concat (map upper_char s)"

text \<open>The text that an f-string shows for an optional string.\<close>

definition format_value :: "string option \<Rightarrow> string" where
  "format_value v = (case v of None \<Rightarrow> ''None'' | Some s \<Rightarrow> s)"

text \<open>
  \<open>AITerminalWindow.process_ai_command\<close>, with the queued window updates applied in
  the order they were queued. The result is the window, the client, and the
  commands passed to \<open>execute_command\<close>.
\<close>

definition process_ai_command ::
  "settings \<Rightarrow> (string \<Rightarrow> generate_result) \<Rightarrow> local_os \<Rightarrow> ssh_remote \<Rightarrow> string
     \<Rightarrow> window \<times> backend \<Rightarrow> window \<times> backend \<times> string list" where
  "process_ai_command cfg generate os remote request_text wb =
     (case wb of (w, b) \<Rightarrow>
      let context = build_context (conversation_history w);
          prompt = build_prompt (ai_name cfg) (ai_role cfg) context request_text
      in case generate prompt of
           Generate_raises e \<Rightarrow> (re_enable_input (on_ai_error e w), b, [])
         | Generate_returns success ai_response \<Rightarrow>
             if \<not> success then (re_enable_input (on_ai_error ai_response w), b, [])
             else
               (case parse_ai_response ai_response of (decision, command, response) \<Rightarrow>
                let w1 = append_chat_message (upper (ai_name cfg)) response ''ai'' w
                in if decision = ''COMMAND'' \<and> command \<noteq> [] \<and> command \<noteq> ''NONE'' then
                     let current_dir = backend_current_directory b;
                         w2 = (if truthy current_dir
                               then append_chat_message ''COMMAND''
                                      (''['' @ the current_dir @ '']$ '' @ command) ''command'' w1
                               else append_chat_message ''COMMAND'' (''$ '' @ command) ''command'' w1)
                     in case backend_execute os remote command b of
                          ((ok, output), b') \<Rightarrow>
                            if ok then
                              (case output of
                                 None \<Rightarrow>
                                   (re_enable_input
                                      (on_ai_error
                                         (''object of type '' @ [CHR 0x27] @ ''NoneType''
                                          @ [CHR 0x27] @ '' has no len()'') w2),
                                    b', [command])
                               | Some out \<Rightarrow>
                                   let out' = truncate_output
                                                (effective_max_output (max_output_chars cfg)) out;
                                       w3 = append_chat_message ''OUTPUT''
                                              (if out' \<noteq> [] then out' else ''(no output)'')
                                              ''output'' w2;
                                       new_dir = backend_current_directory b';
                                       w4 = (if truthy new_dir \<and> new_dir \<noteq> current_dir
                                             then append_chat_message ''SYSTEM''
                                                    (''Directory changed to: '' @ the new_dir)
                                                    ''system'' w3
                                             else w3);
                                       w5 = w4\<lparr>conversation_history :=
                                                 conversation_history w4 @
                                                 [\<lparr>role = ''assistant'',
                                                   content = ''Executed: '' @ command @ newline
                                                             @ ''Output: '' @ out'\<rparr>]\<rparr>
                                   in (re_enable_input w5, b', [command]))
                            else
                              (re_enable_input
                                 (append_chat_message ''ERROR'' (format_value output) ''system'' w2),
                               b', [command])
                   else
                     (re_enable_input
                        (w1\<lparr>conversation_history :=
                              conversation_history w1 @ [\<lparr>role = ''assistant'', content = response\<rparr>]\<rparr>),
                      b, [])))"

text \<open>
  \<open>AITerminalWindow.on_send_message\<close> up to the start of the worker: \<open>None\<close> when the
  handler returns without starting one, else the request text.
\<close>

definition on_send_message :: "backend option \<Rightarrow> window \<Rightarrow> window \<times> string option" where
  "on_send_message client w =
     (let message = strip (input_text w)
      in if message = [] then (w, None)
         else if client = None \<or> \<not> backend_connected (the client)
         then (append_chat_message ''ERROR''
                 ''Terminal not ready. Please wait or restart the application.'' ''system'' w, None)
         else
           let w1 = w\<lparr>input_text := []\<rparr>;
               w2 = append_chat_message ''USER'' message ''user'' w1;
               w3 = w2\<lparr>conversation_history :=
                         conversation_history w2 @ [\<lparr>role = ''user'', content = message\<rparr>]\<rparr>;
               w4 = w3\<lparr>send_sensitive := False, input_sensitive := False\<rparr>
           in (w4, Some message))"

text \<open>One request turn: the handler, then the worker it starts.\<close>

definition request_turn ::
  "settings \<Rightarrow> (string \<Rightarrow> generate_result) \<Rightarrow> local_os \<Rightarrow> ssh_remote
     \<Rightarrow> window \<times> backend \<Rightarrow> window \<times> backend \<times> string list" where
  "request_turn cfg generate os remote wb =
     (case wb of (w, b) \<Rightarrow>
        case on_send_message (Some b) w of
          (w', None) \<Rightarrow> (w', b, [])
        | (w', Some message) \<Rightarrow> process_ai_command cfg generate os remote message (w', b))"

section \<open>What the parser is required to compute\<close>

text \<open>
  The value that a labelled line carries: the line without the label, stripped.
\<close>

definition field_value :: "string \<Rightarrow> string \<Rightarrow> string" where
  "field_value label line = strip (replace_all label [] line)"

text \<open>
  Following the specification's words, "the last occurrence of each label wins":
  \<open>last_field label dflt ls\<close> is the value of the last line of \<open>ls\<close> that
  starts with \<open>label\<close>, and \<open>dflt\<close> when there is none.
\<close>

fun last_field :: "string \<Rightarrow> string \<Rightarrow> string list \<Rightarrow> string" where
  "last_field label dflt [] = dflt"
| "last_field label dflt (l # ls) =
     (if list_ex (\<lambda>x. startswith x label) ls then last_field label dflt ls
      else if startswith l label then field_value label l
      else dflt)"

text \<open>
  The message is the value of the last \<open>RESPONSE:\<close> line, continued by the lines
  that follow it up to the next labelled line; it is empty when there is no
  \<open>RESPONSE:\<close> line.
\<close>

fun last_message :: "string list \<Rightarrow> string" where
  "last_message [] = []"
| "last_message (l # ls) =
     (if list_ex (\<lambda>x. startswith x ''RESPONSE:'') ls then last_message ls
      else if startswith l ''RESPONSE:''
      then field_value ''RESPONSE:'' l
           @ concat (map (\<lambda>x. newline @ x)
               (takeWhile (\<lambda>x. \<not> startswith x ''DECISION:'' \<and> \<not> startswith x ''COMMAND:'') ls))
      else [])"

definition parse_spec :: "string list \<Rightarrow> string \<times> string \<times> string" where
  "parse_spec ls =
     (last_field ''DECISION:'' ''CONVERSATION'' ls, last_field ''COMMAND:'' ''NONE'' ls,
      last_message ls)"

section \<open>Example environments\<close>

text \<open>
  A local machine whose only directories are \<open>/tmp\<close> and the home \<open>/home/u\<close>, and a
  local client sitting in the home with nothing running.
\<close>

definition example_os :: local_os where
  "example_os =
     \<lparr>os_home = Some ''/home/u'', os_user_home = (\<lambda>_. None),
      os_chdir = (\<lambda>p. if p = ''/tmp'' \<or> p = ''/home/u'' then Chdir_ok p else File_not_found),
      os_run = (\<lambda>_ _ _. Run_completed [] []), os_popen = (\<lambda>_ _. Popen_lines []),
      os_killpg = (\<lambda>_ _. True), os_terminate = (\<lambda>_. True), os_kill = (\<lambda>_. True)\<rparr>"

definition example_local :: local_client where
  "example_local =
     \<lparr>local_connected = True, local_current_directory = ''/home/u'',
      local_running_process = None\<rparr>"

text \<open>
  A remote shell with the directories \<open>/srv\<close> and \<open>/srv/app\<close>: it answers the probe
  into \<open>app\<close> from \<open>/srv\<close>, and reports an error on any other command.
\<close>

definition example_remote :: ssh_remote where
  "example_remote =
     \<lparr>remote_exec = (\<lambda>_ cmd. if cmd = ''cd /srv && cd app && pwd''
                               then Exec_output ''/srv/app\<newline>'' []
                               else Exec_output [] ''bash: no such file or directory\<newline>''),
      remote_stream = (\<lambda>_. Stream_chunks []),
      remote_send = (\<lambda>_. True), remote_close = (\<lambda>_. True)\<rparr>"

definition example_ssh :: ssh_client where
  "example_ssh =
     \<lparr>ssh_client_handle = Some 1, ssh_connected = True,
      ssh_current_directory = Some ''/srv'', ssh_running_channel = None\<rparr>"

text \<open>The local client sitting in \<open>/tmp\<close>.\<close>

definition example_local_tmp :: local_client where
  "example_local_tmp =
     \<lparr>local_connected = True, local_current_directory = ''/tmp'',
      local_running_process = None\<rparr>"

text \<open>The same remote shell behind a transport whose first request fails.\<close>

definition flaky_remote :: ssh_remote where
  "flaky_remote =
     \<lparr>remote_exec = (\<lambda>n cmd. if n = 0 then Exec_raises ''timed out''
                               else remote_exec example_remote n cmd),
      remote_stream = (\<lambda>_. Stream_chunks []),
      remote_send = (\<lambda>_. True), remote_close = (\<lambda>_. True)\<rparr>"

text \<open>
  A window with the request \<open>hello\<close> typed in, default settings, and a model client
  that cannot be reached.
\<close>

definition example_window :: window where
  "example_window =
     \<lparr>conversation_history = [], chat_log = [], input_text = ''hello'', input_position = 5,
      input_sensitive = True, send_sensitive = True, completions = [], completion_index = 0,
      last_completion_text = []\<rparr>"

definition example_settings :: settings where
  "example_settings =
     \<lparr>ai_name = ''Jarvis'', ai_role = ''Linux Expert'', max_output_chars = Setting_absent\<rparr>"

definition unreachable_model :: "string \<Rightarrow> generate_result" where
  "unreachable_model prompt = Generate_returns False ''connection refused''"

text \<open>
  A window with \<open>x\<close> typed in and the cursor behind it, and a client that answers
  every completion lookup with the same three candidates.
\<close>

definition example_entry :: window where
  "example_entry =
     \<lparr>conversation_history = [], chat_log = [], input_text = ''x'', input_position = 1,
      input_sensitive = True, send_sensitive = True, completions = [], completion_index = 0,
      last_completion_text = []\<rparr>"

definition three_candidates :: "string \<Rightarrow> string list" where
  "three_candidates partial_word = [''xa'', ''xb'', ''xc'']"

section \<open>Evaluation rules\<close>

lemmas py_text_defs = strip_def lstrip_def rstrip_def py_isspace_def startswith_def endswith_def
  lower_def lower_char_def suffix_to_prefix


section \<open>Interrupt and kill with nothing running\<close>

text \<open>
  Claim C7. On both backends, \<open>interrupt_command\<close> and \<open>kill_command\<close> called while
  no command is in flight return \<open>False\<close>, leave the client object (connection
  state, tracked directory, running-command handle) as it was, and issue no call
  to the operating system or to the channel.
\<close>

theorem idle_interrupt_kill_noop:
  assumes "local_running_process lc = None" and "ssh_running_channel sc = None"
  shows "local_interrupt_command os lc = (False, lc, [])
       \<and> local_kill_command os lc = (False, lc, [])
       \<and> ssh_interrupt_command remote sc = (False, sc, [])
       \<and> ssh_kill_command remote sc = (False, sc, [])"
  using assms
  by (simp add: local_interrupt_command_def local_kill_command_def
        ssh_interrupt_command_def ssh_kill_command_def)

theorem idle_interrupt_kill_noop_witness:
  "local_running_process example_local = None
   \<and> ssh_running_channel example_ssh = None
   \<and> local_interrupt_command example_os example_local = (False, example_local, [])
   \<and> local_kill_command example_os example_local = (False, example_local, [])
   \<and> ssh_interrupt_command example_remote example_ssh = (False, example_ssh, [])
   \<and> ssh_kill_command example_remote example_ssh = (False, example_ssh, [])"
  using idle_interrupt_kill_noop [of example_local example_ssh example_os example_remote]
  by (simp add: example_local_def example_ssh_def)

section \<open>A failed local \<open>cd\<close>\<close>



section \<open>The prompt's history context\<close>

lemma last_turns_length: "length (last_turns history) \<le> 5"
  by (simp add: last_turns_def)

lemma last_turns_idem: "last_turns (last_turns history) = last_turns history"
  by (simp add: last_turns_def)

lemma last_turns_older:
  "length recent = 5 \<Longrightarrow> last_turns (older @ recent) = recent"
  by (simp add: last_turns_def)

lemma context_loop_length:
  "length (context_loop msgs ctx) =
     length ctx + sum_list (map (\<lambda>t. length (role t) + length (content t) + 3) msgs)"
  by (induction msgs arbitrary: ctx) (simp_all add: newline_def)

lemma build_context_last_turns: "build_context history = build_context (last_turns history)"
proof (cases "history = []")
  case True
  then show ?thesis by (simp add: build_context_def last_turns_def)
next
  case False
  then have "length history - 5 < length history" by (cases history) simp_all
  then have "last_turns history \<noteq> []" by (simp add: last_turns_def)
  with False show ?thesis by (simp add: build_context_def last_turns_idem)
qed

text \<open>
  Claim C9. Whatever the length of the conversation history, the prompt embeds the
  turns of \<open>conversation_history[-5:]\<close> only: these are at most 5 turns, they are
  the end of the history, the prompt is the one built from them alone, and the
  length of the embedded context is bounded by their sizes.
\<close>

theorem prompt_embeds_last_five_turns:
  "length (last_turns history) \<le> 5
   \<and> history = take (length history - 5) history @ last_turns history
   \<and> build_prompt name persona (build_context history) request
       = build_prompt name persona (build_context (last_turns history)) request
   \<and> length (build_context history)
       \<le> 33 + sum_list (map (\<lambda>t. length (role t) + length (content t) + 3) (last_turns history))"
proof -
  have "length (build_context history)
       \<le> 33 + sum_list (map (\<lambda>t. length (role t) + length (content t) + 3) (last_turns history))"
    by (simp add: build_context_def context_loop_length newline_def)
  moreover have "history = take (length history - 5) history @ last_turns history"
    by (simp add: last_turns_def)
  ultimately show ?thesis
    using last_turns_length [of history] build_context_last_turns [of history] by simp
qed

section \<open>Output truncation\<close>

lemma effective_max_output_nonneg: "0 \<le> effective_max_output s"
  by (cases s) (simp_all add: effective_max_output_def MAX_OUTPUT_CHARS_def)

lemma str_nat_3: "str_nat (Suc (Suc (Suc 0))) = ''3''"
  by code_simp

text \<open>
  Claim C3 as stated fails at a configured maximum of 0: the code resets only a
  negative value, so the limit stays 0 and the output \<open>abc\<close> is cut down to the
  marker alone, where the default limit would leave it whole.
\<close>

theorem zero_maximum_counterexample:
  "effective_max_output (Setting_int 0) \<noteq> MAX_OUTPUT_CHARS
   \<and> truncate_output (effective_max_output (Setting_int 0)) ''abc''
       = [CHR 0x0A] @ ''... (output truncated, 3 chars total)''
   \<and> truncate_output MAX_OUTPUT_CHARS ''abc'' = ''abc''"
  by (simp add: effective_max_output_def MAX_OUTPUT_CHARS_def truncate_output_def slice_to_def
        newline_def str_nat_3)

text \<open>
  Claim C3, amended. An output longer than the limit in force is cut to exactly
  that many characters, followed by a marker that states the original length. The
  limit in force is the configured maximum when that is 0 or more, and the default
  150000 when the configured maximum is negative, absent, or not a number.
\<close>

theorem truncation_at_configured_maximum:
  assumes "int (length output) > effective_max_output s"
  shows "truncate_output (effective_max_output s) output
           = take (nat (effective_max_output s)) output @ newline
             @ ''... (output truncated, '' @ str_nat (length output) @ '' chars total)''
       \<and> int (length (take (nat (effective_max_output s)) output)) = effective_max_output s
       \<and> effective_max_output s =
           (case s of Setting_int n \<Rightarrow> (if n < 0 then 150000 else n) | _ \<Rightarrow> 150000)"
proof -
  have nonneg: "0 \<le> effective_max_output s" by (rule effective_max_output_nonneg)
  have "truncate_output (effective_max_output s) output
           = take (nat (effective_max_output s)) output @ newline
             @ ''... (output truncated, '' @ str_nat (length output) @ '' chars total)''"
    using assms nonneg by (simp add: truncate_output_def slice_to_def)
  moreover have "int (length (take (nat (effective_max_output s)) output)) = effective_max_output s"
    using assms nonneg by simp
  moreover have "effective_max_output s =
           (case s of Setting_int n \<Rightarrow> (if n < 0 then 150000 else n) | _ \<Rightarrow> 150000)"
    by (cases s) (simp_all add: effective_max_output_def MAX_OUTPUT_CHARS_def)
  ultimately show ?thesis by simp
qed

theorem truncation_at_configured_maximum_witness:
  "int (length ''abc'') > effective_max_output (Setting_int 2)
   \<and> truncate_output (effective_max_output (Setting_int 2)) ''abc''
       = ''ab'' @ [CHR 0x0A] @ ''... (output truncated, 3 chars total)''
   \<and> effective_max_output (Setting_int 2) = 2"
  using truncation_at_configured_maximum [of "Setting_int 2" "''abc''"]
  by (simp add: effective_max_output_def newline_def str_nat_3)

section \<open>A failed model call\<close>

lemma process_ai_command_failure:
  assumes "generate (build_prompt (ai_name cfg) (ai_role cfg)
              (build_context (conversation_history w)) request_text)
             = Generate_raises e
           \<or> generate (build_prompt (ai_name cfg) (ai_role cfg)
              (build_context (conversation_history w)) request_text)
             = Generate_returns False e"
  shows "process_ai_command cfg generate os remote request_text (w, b)
           = (w\<lparr>chat_log := chat_log w @ [(''ERROR'', e, ''system'')],
                send_sensitive := True, input_sensitive := True\<rparr>, b, [])"
  using assms
  unfolding process_ai_command_def Let_def
  by (elim disjE) (simp_all add: on_ai_error_def re_enable_input_def append_chat_message_def)


lemma example_send:
  "on_send_message (Some (Local_backend example_local)) example_window
     = (example_window\<lparr>input_text := [],
          chat_log := [(''USER'', ''hello'', ''user'')],
          conversation_history := [\<lparr>role = ''user'', content = ''hello''\<rparr>],
          send_sensitive := False, input_sensitive := False\<rparr>, Some ''hello'')"
  by (simp add: on_send_message_def example_window_def example_local_def
        backend_connected_def append_chat_message_def Let_def py_text_defs)

text \<open>
  Claim C4 as stated fails on the history: the handler appends the user's request
  to the conversation history before the worker calls the model, and nothing
  removes it when the call fails. Here the history is empty before the turn and
  holds the request after it.
\<close>

theorem failed_turn_counterexample:
  "conversation_history
     (fst (request_turn example_settings unreachable_model example_os example_remote
            (example_window, Local_backend example_local)))
     = [\<lparr>role = ''user'', content = ''hello''\<rparr>]
   \<and> conversation_history example_window = []"
proof -
  have "conversation_history example_window = []"
    by (simp add: example_window_def)
  moreover have "conversation_history
     (fst (request_turn example_settings unreachable_model example_os example_remote
            (example_window, Local_backend example_local)))
     = [\<lparr>role = ''user'', content = ''hello''\<rparr>]"
    unfolding request_turn_def
    by (simp add: example_send process_ai_command_failure [where e = "''connection refused''"]
          unreachable_model_def)
  ultimately show ?thesis by simp
qed


text \<open>
  Claim C4, amended. When the model client's generate call fails in a request
  turn (it raises, or returns without success), no command is passed to the
  client and the client is unchanged, the failure is shown as an \<open>ERROR\<close> message,
  the entry and the send button are enabled again, and the conversation history
  is the history before the turn with exactly the user's request appended: no
  assistant turn is added and no earlier turn is changed.
\<close>

theorem failed_turn_keeps_request_only:
  assumes "strip (input_text w) \<noteq> []" and "backend_connected b"
      and "generate (build_prompt (ai_name cfg) (ai_role cfg)
              (build_context (conversation_history w
                 @ [\<lparr>role = ''user'', content = strip (input_text w)\<rparr>]))
              (strip (input_text w)))
             = Generate_raises e
           \<or> generate (build_prompt (ai_name cfg) (ai_role cfg)
              (build_context (conversation_history w
                 @ [\<lparr>role = ''user'', content = strip (input_text w)\<rparr>]))
              (strip (input_text w)))
             = Generate_returns False e"
  shows "request_turn cfg generate os remote (w, b)
           = (w\<lparr>conversation_history :=
                   conversation_history w @ [\<lparr>role = ''user'', content = strip (input_text w)\<rparr>],
                chat_log := chat_log w @ [(''USER'', strip (input_text w), ''user''),
                                          (''ERROR'', e, ''system'')],
                input_text := [],
                send_sensitive := True, input_sensitive := True\<rparr>, b, [])"
proof -
  let ?m = "strip (input_text w)"
  let ?w4 = "w\<lparr>input_text := [],
                chat_log := chat_log w @ [(''USER'', ?m, ''user'')],
                conversation_history := conversation_history w @ [\<lparr>role = ''user'', content = ?m\<rparr>],
                send_sensitive := False, input_sensitive := False\<rparr>"
  have send: "on_send_message (Some b) w = (?w4, Some ?m)"
    using assms(1,2) by (simp add: on_send_message_def Let_def append_chat_message_def)
  have "process_ai_command cfg generate os remote ?m (?w4, b)
           = (?w4\<lparr>chat_log := chat_log ?w4 @ [(''ERROR'', e, ''system'')],
                send_sensitive := True, input_sensitive := True\<rparr>, b, [])"
    by (rule process_ai_command_failure) (use assms(3) in simp)
  with send show ?thesis by (simp add: request_turn_def)
qed

lemma example_request: "strip (input_text example_window) = ''hello''"
  by (simp add: example_window_def py_text_defs)

theorem failed_turn_keeps_request_only_witness:
  "strip (input_text example_window) \<noteq> []
   \<and> backend_connected (Local_backend example_local)
   \<and> request_turn example_settings unreachable_model example_os example_remote
        (example_window, Local_backend example_local)
      = (example_window
           \<lparr>conversation_history := [\<lparr>role = ''user'', content = ''hello''\<rparr>],
            chat_log := [(''USER'', ''hello'', ''user''),
                         (''ERROR'', ''connection refused'', ''system'')],
            input_text := [],
            send_sensitive := True, input_sensitive := True\<rparr>,
         Local_backend example_local, [])"
proof -
  have a: "strip (input_text example_window) \<noteq> []" by (simp add: example_request)
  have b: "backend_connected (Local_backend example_local)"
    by (simp add: backend_connected_def example_local_def)
  have c: "unreachable_model p = Generate_raises ''connection refused''
           \<or> unreachable_model p = Generate_returns False ''connection refused''" for p
    by (simp add: unreachable_model_def)
  show ?thesis
    using failed_turn_keeps_request_only
            [OF a b c, where cfg = example_settings and os = example_os and remote = example_remote]
      a b
    by (simp add: example_request) (simp add: example_window_def)
qed

section \<open>Completion cycling\<close>

text \<open>
  Claim C8, evaluated on the code. The client answers every lookup with the
  candidates \<open>xa\<close>, \<open>xb\<close>, \<open>xc\<close>; the entry holds \<open>x\<close>. Four presses of Tab show
  \<open>xa\<close>, \<open>xa\<close>, \<open>xb\<close>, \<open>xa\<close> and not \<open>xa\<close>, \<open>xb\<close>, \<open>xc\<close>, \<open>xa\<close>: applying a
  candidate changes the entry text, which then differs from the text remembered
  with the candidate list, so the next press looks the candidates up again
  instead of moving on in the list.
\<close>

theorem tab_cycle_refetches:
  "press_tab 4 True three_candidates example_entry = [''xa'', ''xa'', ''xb'', ''xa'']
   \<and> press_tab 4 True three_candidates example_entry \<noteq> [''xa'', ''xb'', ''xc'', ''xa'']"
  by code_simp

section \<open>Parsing the model's response\<close>

lemma last_field_absent:
  "\<not> list_ex (\<lambda>x. startswith x label) ls \<Longrightarrow> last_field label d ls = d"
  by (induction ls) (auto simp: list_ex_iff)

lemma last_field_present:
  "list_ex (\<lambda>x. startswith x label) ls \<Longrightarrow> last_field label d ls = last_field label d' ls"
  by (induction ls) (auto simp: list_ex_iff)

lemma last_field_default:
  "last_field label d ls =
     (if list_ex (\<lambda>x. startswith x label) ls then last_field label d' ls else d)"
  using last_field_absent last_field_present by metis

lemma labels_exclusive:
  "startswith l ''DECISION:'' \<Longrightarrow> \<not> startswith l ''COMMAND:''"
  "startswith l ''DECISION:'' \<Longrightarrow> \<not> startswith l ''RESPONSE:''"
  "startswith l ''COMMAND:'' \<Longrightarrow> \<not> startswith l ''RESPONSE:''"
  by (auto simp: startswith_def prefix_def)

lemma last_message_absent:
  "\<not> list_ex (\<lambda>x. startswith x ''RESPONSE:'') ls \<Longrightarrow> last_message ls = []"
  by (induction ls) (auto simp: list_ex_iff)

lemma last_field_Cons_other:
  "\<not> startswith l label \<Longrightarrow> last_field label d (l # ls) = last_field label d ls"
  by (simp add: last_field_absent)

lemma last_field_Cons_label:
  "startswith l label \<Longrightarrow>
     last_field label d (l # ls) = last_field label (field_value label l) ls"
  using last_field_present [of label ls d "field_value label l"]
  by (simp add: last_field_absent)

lemma last_message_Cons_other:
  "\<not> startswith l ''RESPONSE:'' \<Longrightarrow> last_message (l # ls) = last_message ls"
  by (simp add: last_message_absent)

lemma parse_loop_spec:
  "parse_loop ls d c m s =
     (last_field ''DECISION:'' d ls, last_field ''COMMAND:'' c ls,
      if list_ex (\<lambda>x. startswith x ''RESPONSE:'') ls then last_message ls
      else if s then m @ concat (map (\<lambda>x. newline @ x)
               (takeWhile (\<lambda>x. \<not> startswith x ''DECISION:'' \<and> \<not> startswith x ''COMMAND:'') ls))
      else m)"
proof (induction ls arbitrary: d c m s)
  case Nil
  then show ?case by simp
next
  case (Cons l ls)
  consider (D) "startswith l ''DECISION:''"
    | (C) "\<not> startswith l ''DECISION:''" "startswith l ''COMMAND:''"
    | (R) "\<not> startswith l ''DECISION:''" "\<not> startswith l ''COMMAND:''" "startswith l ''RESPONSE:''"
    | (N) "\<not> startswith l ''DECISION:''" "\<not> startswith l ''COMMAND:''" "\<not> startswith l ''RESPONSE:''"
    by blast
  then show ?case
  proof cases
    case D
    then show ?thesis
      using labels_exclusive(1,2) [OF D]
      by (simp add: Cons.IH field_value_def last_field_Cons_other last_field_Cons_label
            last_message_Cons_other del: last_field.simps(2) last_message.simps(2))
  next
    case C
    then show ?thesis
      using labels_exclusive(3) [OF C(2)]
      by (simp add: Cons.IH field_value_def last_field_Cons_other last_field_Cons_label
            last_message_Cons_other del: last_field.simps(2) last_message.simps(2))
  next
    case R
    then show ?thesis
      by (simp add: Cons.IH field_value_def last_field_Cons_other
            del: last_field.simps(2))
  next
    case N
    then show ?thesis
      by (simp add: Cons.IH last_field_Cons_other last_message_Cons_other
            del: last_field.simps(2) last_message.simps(2))
  qed
qed

lemma parse_ai_response_spec:
  "parse_ai_response response = parse_spec (split_char CHR 0x0A (strip response))"
  by (simp add: parse_ai_response_def parse_spec_def parse_loop_spec last_message_absent)


subsection \<open>Stripping and splitting a response of three labelled lines\<close>

lemma lstrip_blanks:
  assumes "list_all py_isspace ws" and "s \<noteq> []" and "\<not> py_isspace (hd s)"
  shows "lstrip (ws @ s) = s"
proof -
  have "dropWhile py_isspace (ws @ s) = dropWhile py_isspace s"
    using assms(1) by (intro dropWhile_append2) (simp add: list_all_iff)
  also have "\<dots> = s" using assms(2,3) by (cases s) simp_all
  finally show ?thesis by (simp add: lstrip_def)
qed

lemma rstrip_append:
  assumes "\<not> list_all py_isspace t"
  shows "rstrip (s @ t) = s @ rstrip t"
proof -
  from assms obtain c where c: "c \<in> set (rev t)" "\<not> py_isspace c"
    by (auto simp: list_all_iff)
  have "dropWhile py_isspace (rev t @ rev s) = dropWhile py_isspace (rev t) @ rev s"
    using c by (rule dropWhile_append1)
  then show ?thesis by (simp add: rstrip_def)
qed

lemma dropWhile_rev_blank:
  "list_all py_isspace ws \<Longrightarrow> dropWhile py_isspace (rev ws @ v) = dropWhile py_isspace v"
  by (intro dropWhile_append2) (simp add: list_all_iff)

lemma rstrip_blank:
  "list_all py_isspace t \<Longrightarrow> rstrip t = []"
  by (simp add: rstrip_def list_all_iff)

lemma rstrip_decomp:
  "\<exists>ws. list_all py_isspace ws \<and> s = rstrip s @ ws"
proof -
  have "rev s = takeWhile py_isspace (rev s) @ dropWhile py_isspace (rev s)" by simp
  then have "s = rev (dropWhile py_isspace (rev s)) @ rev (takeWhile py_isspace (rev s))"
    by (metis rev_append rev_rev_ident)
  moreover have "list_all py_isspace (rev (takeWhile py_isspace (rev s)))"
    by (simp add: list_all_iff) (meson set_takeWhileD)
  ultimately show ?thesis unfolding rstrip_def by blast
qed

lemma rstrip_label:
  assumes "label \<noteq> []" and "\<not> py_isspace (last label)"
  shows "rstrip (label @ x) = label @ rstrip x"
proof (cases "list_all py_isspace x")
  case True
  have "\<not> list_all py_isspace label"
    using assms by (auto simp: list_all_iff)
  then have "rstrip ([] @ label) = [] @ rstrip label" by (rule rstrip_append)
  moreover have "rstrip label = label"
    using assms by (cases "rev label") (simp_all add: rstrip_def last_rev [symmetric] hd_rev)
  moreover have "rstrip (label @ x) = rstrip label"
    using True by (simp add: rstrip_def dropWhile_rev_blank)
  ultimately show ?thesis using True by (simp add: rstrip_blank)
next
  case False
  then show ?thesis by (rule rstrip_append)
qed

lemma split_on_no_sep: "sep \<notin> set xs \<Longrightarrow> split_on sep buf xs = [buf @ xs]"
  by (induction xs arbitrary: buf) auto

lemma split_on_sep:
  "sep \<notin> set xs \<Longrightarrow> split_on sep buf (xs @ sep # rest) = (buf @ xs) # split_on sep [] rest"
  by (induction xs arbitrary: buf) auto

lemma split_three_lines:
  assumes "CHR 0x0A \<notin> set l1" "CHR 0x0A \<notin> set l2" "CHR 0x0A \<notin> set l3"
  shows "split_char CHR 0x0A (l1 @ newline @ l2 @ newline @ l3) = [l1, l2, l3]"
  using assms by (simp add: split_char_def newline_def split_on_sep split_on_no_sep)

lemma rstrip_no_newline: "CHR 0x0A \<notin> set s \<Longrightarrow> CHR 0x0A \<notin> set (rstrip s)"
  by (auto simp: rstrip_def dest: set_dropWhileD)

lemma lines_of_three:
  assumes blanks: "list_all py_isspace blanks"
      and l1: "l1 \<noteq> []" "\<not> py_isspace (hd l1)"
      and l3: "\<not> list_all py_isspace l3"
      and nl: "CHR 0x0A \<notin> set l1" "CHR 0x0A \<notin> set l2" "CHR 0x0A \<notin> set l3"
  shows "split_char CHR 0x0A (strip (blanks @ join_with newline [l1, l2, l3]))
           = [l1, l2, rstrip l3]"
proof -
  have "hd (l1 @ newline @ l2 @ newline @ l3) = hd l1" using l1(1) by simp
  then have "lstrip (blanks @ (l1 @ newline @ l2 @ newline @ l3)) = l1 @ newline @ l2 @ newline @ l3"
    using blanks l1 by (intro lstrip_blanks) simp_all
  moreover have "rstrip ((l1 @ newline @ l2 @ newline) @ l3) = (l1 @ newline @ l2 @ newline) @ rstrip l3"
    using l3 by (rule rstrip_append)
  ultimately have "strip (blanks @ join_with newline [l1, l2, l3])
      = l1 @ newline @ l2 @ newline @ rstrip l3"
    by (simp add: strip_def)
  then show ?thesis
    using nl rstrip_no_newline [OF nl(3)] by (simp add: split_three_lines)
qed

subsection \<open>The value of a line does not depend on trailing blanks\<close>

lemma replace_all_blank:
  assumes "old \<noteq> []" and "\<not> py_isspace (hd old)" and "list_all py_isspace ws"
  shows "replace_all old new ws = ws"
  using assms(3)
proof (induction ws)
  case Nil
  then show ?case by simp
next
  case (Cons c cs)
  have "\<not> prefix old (c # cs)"
  proof
    assume "prefix old (c # cs)"
    then have "hd old = c" using assms(1) by (cases old) simp_all
    with Cons.prems assms(2) show False by simp
  qed
  with Cons show ?case by simp
qed

lemma prefix_append_blank:
  assumes "\<forall>c \<in> set old. \<not> py_isspace c" and "list_all py_isspace ws"
  shows "prefix old (t @ ws) \<longleftrightarrow> prefix old t"
proof
  assume "prefix old (t @ ws)"
  then have "prefix old t \<or> (\<exists>us. old = t @ us \<and> prefix us ws)"
    by (simp add: prefix_append)
  then show "prefix old t"
  proof
    assume "prefix old t"
    then show ?thesis .
  next
    assume "\<exists>us. old = t @ us \<and> prefix us ws"
    then obtain us where us: "old = t @ us" "prefix us ws" by blast
    show ?thesis
    proof (cases us)
      case Nil
      with us show ?thesis by simp
    next
      case (Cons u us')
      with us have "u \<in> set old" "u \<in> set ws" by (auto simp: prefix_def)
      with assms show ?thesis by (auto simp: list_all_iff)
    qed
  qed
next
  assume "prefix old t"
  then show "prefix old (t @ ws)" by (rule prefix_prefix)
qed

lemma replace_all_append_blank:
  "old \<noteq> [] \<Longrightarrow> \<forall>c \<in> set old. \<not> py_isspace c \<Longrightarrow> list_all py_isspace ws \<Longrightarrow>
     replace_all old new (t @ ws) = replace_all old new t @ ws"
proof (induction old new t rule: replace_all.induct)
  case (1 old new)
  then have "\<not> py_isspace (hd old)" by simp
  with 1 show ?case by (simp add: replace_all_blank)
next
  case (2 old new c cs)
  show ?case
  proof (cases "prefix old (c # cs)")
    case True
    then have len: "length old \<le> length (c # cs)" by (rule prefix_length_le)
    have d: "drop (length old) ((c # cs) @ ws) = drop (length old) (c # cs) @ ws"
      using len unfolding drop_append by simp
    from True have "prefix old ((c # cs) @ ws)" by (rule prefix_prefix)
    then have "replace_all old new ((c # cs) @ ws)
        = new @ replace_all old new (drop (length old) (c # cs) @ ws)"
      using "2.prems"(1) d by simp
    also have "\<dots> = new @ replace_all old new (drop (length old) (c # cs)) @ ws"
      using True 2 by simp
    also have "\<dots> = replace_all old new (c # cs) @ ws"
      using True "2.prems"(1) by simp
    finally show ?thesis .
  next
    case False
    then have "\<not> prefix old ((c # cs) @ ws)"
      using prefix_append_blank [OF "2.prems"(2,3), of "c # cs"] by simp
    then show ?thesis using False 2 by simp
  qed
qed

lemma strip_append_blank:
  assumes "list_all py_isspace ws"
  shows "strip (u @ ws) = strip u"
proof (cases "list_all py_isspace u")
  case True
  then have "lstrip (u @ ws) = []" "lstrip u = []"
    using assms by (simp_all add: lstrip_def list_all_iff)
  then show ?thesis by (simp add: strip_def)
next
  case False
  then obtain c where "c \<in> set u" "\<not> py_isspace c" by (auto simp: list_all_iff)
  then have "dropWhile py_isspace (u @ ws) = dropWhile py_isspace u @ ws"
    by (rule dropWhile_append1)
  moreover have "rstrip (v @ ws) = rstrip v" for v
    using assms by (simp add: rstrip_def dropWhile_rev_blank)
  ultimately show ?thesis by (simp add: strip_def lstrip_def)
qed

lemma strip_replace_rstrip:
  assumes "old \<noteq> []" and "\<forall>c \<in> set old. \<not> py_isspace c"
  shows "strip (replace_all old new (rstrip w)) = strip (replace_all old new w)"
proof -
  obtain ws where ws: "list_all py_isspace ws" "w = rstrip w @ ws"
    using rstrip_decomp by blast
  have "replace_all old new (rstrip w @ ws) = replace_all old new (rstrip w) @ ws"
    using assms ws(1) by (rule replace_all_append_blank)
  then show ?thesis using ws strip_append_blank [OF ws(1)] by metis
qed

lemma field_value_label:
  "label \<noteq> [] \<Longrightarrow> field_value label (label @ w) = strip (replace_all label [] w)"
  by (cases label) (simp_all add: field_value_def)

subsection \<open>Three labelled lines in any order\<close>

lemma parse_three_lines:
  assumes "list_all py_isspace blanks"
      and "l1 \<noteq> []" "\<not> py_isspace (hd l1)" "\<not> list_all py_isspace l3"
      and "CHR 0x0A \<notin> set l1" "CHR 0x0A \<notin> set l2" "CHR 0x0A \<notin> set l3"
  shows "parse_ai_response (blanks @ join_with newline [l1, l2, l3])
           = parse_loop [l1, l2, rstrip l3] ''CONVERSATION'' ''NONE'' [] False"
  using lines_of_three [OF assms] by (simp add: parse_ai_response_def)

lemma label_facts:
  "\<not> py_isspace CHR ''D''" "\<not> py_isspace CHR ''C''" "\<not> py_isspace CHR ''R''"
  "\<not> py_isspace CHR '':''"
  by (simp_all add: py_isspace_def)

lemma label_no_blank:
  "\<forall>c \<in> set ''DECISION:''. \<not> py_isspace c"
  "\<forall>c \<in> set ''COMMAND:''. \<not> py_isspace c"
  "\<forall>c \<in> set ''RESPONSE:''. \<not> py_isspace c"
  by (simp_all add: py_isspace_def)

lemma labelled_not_blank:
  "\<not> list_all py_isspace (''DECISION:'' @ w)"
  "\<not> list_all py_isspace (''COMMAND:'' @ w)"
  "\<not> list_all py_isspace (''RESPONSE:'' @ w)"
  by (simp_all add: label_facts)

lemma rstrip_labelled:
  "rstrip (''DECISION:'' @ w) = ''DECISION:'' @ rstrip w"
  "rstrip (''COMMAND:'' @ w) = ''COMMAND:'' @ rstrip w"
  "rstrip (''RESPONSE:'' @ w) = ''RESPONSE:'' @ rstrip w"
  by (rule rstrip_label; simp add: label_facts)+

lemma value_labelled:
  "strip (replace_all ''DECISION:'' [] (''DECISION:'' @ w)) = strip (replace_all ''DECISION:'' [] w)"
  "strip (replace_all ''COMMAND:'' [] (''COMMAND:'' @ w)) = strip (replace_all ''COMMAND:'' [] w)"
  "strip (replace_all ''RESPONSE:'' [] (''RESPONSE:'' @ w)) = strip (replace_all ''RESPONSE:'' [] w)"
  using field_value_label [of "''DECISION:''" w] field_value_label [of "''COMMAND:''" w]
    field_value_label [of "''RESPONSE:''" w]
  by (simp_all add: field_value_def)

lemma value_rstrip:
  "strip (replace_all ''DECISION:'' [] (rstrip w)) = strip (replace_all ''DECISION:'' [] w)"
  "strip (replace_all ''COMMAND:'' [] (rstrip w)) = strip (replace_all ''COMMAND:'' [] w)"
  "strip (replace_all ''RESPONSE:'' [] (rstrip w)) = strip (replace_all ''RESPONSE:'' [] w)"
  by (rule strip_replace_rstrip; simp add: py_isspace_def)+

lemma starts_labelled:
  "startswith (''DECISION:'' @ w) ''DECISION:''"
  "\<not> startswith (''COMMAND:'' @ w) ''DECISION:''"
  "startswith (''COMMAND:'' @ w) ''COMMAND:''"
  "\<not> startswith (''RESPONSE:'' @ w) ''DECISION:''"
  "\<not> startswith (''RESPONSE:'' @ w) ''COMMAND:''"
  "startswith (''RESPONSE:'' @ w) ''RESPONSE:''"
  by (simp_all add: startswith_def)

lemma parse_labelled_order:
  assumes "list_all py_isspace blanks"
      and "CHR 0x0A \<notin> set x" "CHR 0x0A \<notin> set y" "CHR 0x0A \<notin> set z"
      and "p \<in> set [[''DECISION:'' @ x, ''COMMAND:'' @ y, ''RESPONSE:'' @ z],
                    [''DECISION:'' @ x, ''RESPONSE:'' @ z, ''COMMAND:'' @ y],
                    [''COMMAND:'' @ y, ''DECISION:'' @ x, ''RESPONSE:'' @ z],
                    [''COMMAND:'' @ y, ''RESPONSE:'' @ z, ''DECISION:'' @ x],
                    [''RESPONSE:'' @ z, ''DECISION:'' @ x, ''COMMAND:'' @ y],
                    [''RESPONSE:'' @ z, ''COMMAND:'' @ y, ''DECISION:'' @ x]]"
  shows "parse_ai_response (blanks @ join_with newline p)
           = (strip (replace_all ''DECISION:'' [] x), strip (replace_all ''COMMAND:'' [] y),
              strip (replace_all ''RESPONSE:'' [] z))"
proof -
  have three: "parse_ai_response (blanks @ join_with newline [a @ u, b @ v, c @ w])
           = parse_loop [a @ u, b @ v, rstrip (c @ w)] ''CONVERSATION'' ''NONE'' [] False"
    if "a \<noteq> []" "\<not> py_isspace (hd a)" "\<not> list_all py_isspace (c @ w)"
       "CHR 0x0A \<notin> set (a @ u)" "CHR 0x0A \<notin> set (b @ v)" "CHR 0x0A \<notin> set (c @ w)"
    for a b c u v w
    using that assms(1) by (intro parse_three_lines) simp_all
  from assms(5) have
      "p = [''DECISION:'' @ x, ''COMMAND:'' @ y, ''RESPONSE:'' @ z]
     \<or> p = [''DECISION:'' @ x, ''RESPONSE:'' @ z, ''COMMAND:'' @ y]
     \<or> p = [''COMMAND:'' @ y, ''DECISION:'' @ x, ''RESPONSE:'' @ z]
     \<or> p = [''COMMAND:'' @ y, ''RESPONSE:'' @ z, ''DECISION:'' @ x]
     \<or> p = [''RESPONSE:'' @ z, ''DECISION:'' @ x, ''COMMAND:'' @ y]
     \<or> p = [''RESPONSE:'' @ z, ''COMMAND:'' @ y, ''DECISION:'' @ x]"
    by (simp only: list.set insert_iff empty_iff simp_thms)
  then consider
      "p = [''DECISION:'' @ x, ''COMMAND:'' @ y, ''RESPONSE:'' @ z]"
    | "p = [''DECISION:'' @ x, ''RESPONSE:'' @ z, ''COMMAND:'' @ y]"
    | "p = [''COMMAND:'' @ y, ''DECISION:'' @ x, ''RESPONSE:'' @ z]"
    | "p = [''COMMAND:'' @ y, ''RESPONSE:'' @ z, ''DECISION:'' @ x]"
    | "p = [''RESPONSE:'' @ z, ''DECISION:'' @ x, ''COMMAND:'' @ y]"
    | "p = [''RESPONSE:'' @ z, ''COMMAND:'' @ y, ''DECISION:'' @ x]"
    by blast
  then show ?thesis
  proof cases
    case 1
    have "parse_ai_response (blanks @ join_with newline p)
        = parse_loop [''DECISION:'' @ x, ''COMMAND:'' @ y, rstrip (''RESPONSE:'' @ z)]
            ''CONVERSATION'' ''NONE'' [] False"
      unfolding 1 using assms(2-4) labelled_not_blank(3) [of z]
      by (intro three) (simp_all add: label_facts)
    then show ?thesis
      by (simp only: rstrip_labelled parse_loop.simps starts_labelled if_True if_False
            value_labelled value_rstrip)
  next
    case 2
    have "parse_ai_response (blanks @ join_with newline p)
        = parse_loop [''DECISION:'' @ x, ''RESPONSE:'' @ z, rstrip (''COMMAND:'' @ y)]
            ''CONVERSATION'' ''NONE'' [] False"
      unfolding 2 using assms(2-4) labelled_not_blank(2) [of y]
      by (intro three) (simp_all add: label_facts)
    then show ?thesis
      by (simp only: rstrip_labelled parse_loop.simps starts_labelled if_True if_False
            value_labelled value_rstrip)
  next
    case 3
    have "parse_ai_response (blanks @ join_with newline p)
        = parse_loop [''COMMAND:'' @ y, ''DECISION:'' @ x, rstrip (''RESPONSE:'' @ z)]
            ''CONVERSATION'' ''NONE'' [] False"
      unfolding 3 using assms(2-4) labelled_not_blank(3) [of z]
      by (intro three) (simp_all add: label_facts)
    then show ?thesis
      by (simp only: rstrip_labelled parse_loop.simps starts_labelled if_True if_False
            value_labelled value_rstrip)
  next
    case 4
    have "parse_ai_response (blanks @ join_with newline p)
        = parse_loop [''COMMAND:'' @ y, ''RESPONSE:'' @ z, rstrip (''DECISION:'' @ x)]
            ''CONVERSATION'' ''NONE'' [] False"
      unfolding 4 using assms(2-4) labelled_not_blank(1) [of x]
      by (intro three) (simp_all add: label_facts)
    then show ?thesis
      by (simp only: rstrip_labelled parse_loop.simps starts_labelled if_True if_False
            value_labelled value_rstrip)
  next
    case 5
    have "parse_ai_response (blanks @ join_with newline p)
        = parse_loop [''RESPONSE:'' @ z, ''DECISION:'' @ x, rstrip (''COMMAND:'' @ y)]
            ''CONVERSATION'' ''NONE'' [] False"
      unfolding 5 using assms(2-4) labelled_not_blank(2) [of y]
      by (intro three) (simp_all add: label_facts)
    then show ?thesis
      by (simp only: rstrip_labelled parse_loop.simps starts_labelled if_True if_False
            value_labelled value_rstrip)
  next
    case 6
    have "parse_ai_response (blanks @ join_with newline p)
        = parse_loop [''RESPONSE:'' @ z, ''COMMAND:'' @ y, rstrip (''DECISION:'' @ x)]
            ''CONVERSATION'' ''NONE'' [] False"
      unfolding 6 using assms(2-4) labelled_not_blank(1) [of x]
      by (intro three) (simp_all add: label_facts)
    then show ?thesis
      by (simp only: rstrip_labelled parse_loop.simps starts_labelled if_True if_False
            value_labelled value_rstrip)
  qed
qed

subsection \<open>The claim\<close>

lemma parse_no_label:
  assumes "\<forall>l \<in> set (split_char CHR 0x0A (strip response)).
             \<not> startswith l ''DECISION:'' \<and> \<not> startswith l ''COMMAND:''
             \<and> \<not> startswith l ''RESPONSE:''"
  shows "parse_ai_response response = (''CONVERSATION'', ''NONE'', [])"
  using assms
  by (simp add: parse_ai_response_spec parse_spec_def last_field_absent last_message_absent
        list_ex_iff)

text \<open>
  Claim C2 as stated fails on the order of the labels: every line that follows a
  \<open>RESPONSE:\<close> line, up to the next labelled line, is appended to the message. With a
  blank line between the labelled lines, the response that starts with
  \<open>RESPONSE:\<close> gets the message \<open>hi\<close> followed by a line break, and the response with
  the same three labelled lines in the order decision, command, response gets the
  message \<open>hi\<close>.
\<close>

theorem label_order_counterexample:
  "parse_ai_response ''RESPONSE: hi\<newline>\<newline>DECISION: COMMAND\<newline>\<newline>COMMAND: ls''
     = (''COMMAND'', ''ls'', ''hi\<newline>'')
   \<and> parse_ai_response ''DECISION: COMMAND\<newline>\<newline>COMMAND: ls\<newline>\<newline>RESPONSE: hi''
     = (''COMMAND'', ''ls'', ''hi'')
   \<and> parse_ai_response ''RESPONSE: hi\<newline>\<newline>DECISION: COMMAND\<newline>\<newline>COMMAND: ls''
     \<noteq> parse_ai_response ''DECISION: COMMAND\<newline>\<newline>COMMAND: ls\<newline>\<newline>RESPONSE: hi''"
  by code_simp

text \<open>
  Claim C2, amended. Parsing scans the lines of the stripped response and yields
  the triple (decision, command, message) in which the last line carrying a label
  decides that label's field and a missing label leaves the default, the message
  being the value of the last \<open>RESPONSE:\<close> line continued by the lines that follow it
  up to the next \<open>DECISION:\<close> or \<open>COMMAND:\<close> line; a response with no labelled line
  gives exactly (\<open>CONVERSATION\<close>, \<open>NONE\<close>, empty message); and a response made of
  leading blank space and exactly the three labelled lines, each value on its own
  single line, gives the same triple of the three values in all six orders.
\<close>

theorem parse_ai_response_labels:
  "parse_ai_response response = parse_spec (split_char CHR 0x0A (strip response))
   \<and> ((\<forall>l \<in> set (split_char CHR 0x0A (strip response)).
          \<not> startswith l ''DECISION:'' \<and> \<not> startswith l ''COMMAND:''
          \<and> \<not> startswith l ''RESPONSE:'')
        \<longrightarrow> parse_ai_response response = (''CONVERSATION'', ''NONE'', []))
   \<and> (list_all py_isspace blanks
        \<and> CHR 0x0A \<notin> set x \<and> CHR 0x0A \<notin> set y \<and> CHR 0x0A \<notin> set z
        \<and> p \<in> set [[''DECISION:'' @ x, ''COMMAND:'' @ y, ''RESPONSE:'' @ z],
                     [''DECISION:'' @ x, ''RESPONSE:'' @ z, ''COMMAND:'' @ y],
                     [''COMMAND:'' @ y, ''DECISION:'' @ x, ''RESPONSE:'' @ z],
                     [''COMMAND:'' @ y, ''RESPONSE:'' @ z, ''DECISION:'' @ x],
                     [''RESPONSE:'' @ z, ''DECISION:'' @ x, ''COMMAND:'' @ y],
                     [''RESPONSE:'' @ z, ''COMMAND:'' @ y, ''DECISION:'' @ x]]
        \<longrightarrow> parse_ai_response (blanks @ join_with newline p)
              = (strip (replace_all ''DECISION:'' [] x), strip (replace_all ''COMMAND:'' [] y),
                 strip (replace_all ''RESPONSE:'' [] z)))"
  using parse_ai_response_spec [of response] parse_no_label [of response]
    parse_labelled_order [of blanks x y z p]
  by blast

theorem parse_ai_response_labels_witness:
  "split_char CHR 0x0A (strip ''hello there'') = [''hello there'']
   \<and> \<not> startswith ''hello there'' ''DECISION:'' \<and> \<not> startswith ''hello there'' ''COMMAND:''
   \<and> \<not> startswith ''hello there'' ''RESPONSE:''
   \<and> parse_ai_response ''hello there'' = (''CONVERSATION'', ''NONE'', [])
   \<and> list_all py_isspace [CHR 0x0A, CHR 0x0A]
   \<and> CHR 0x0A \<notin> set '' COMMAND'' \<and> CHR 0x0A \<notin> set '' ls -l'' \<and> CHR 0x0A \<notin> set '' listing''
   \<and> parse_ai_response ([CHR 0x0A, CHR 0x0A] @ join_with newline
        [''RESPONSE:'' @ '' listing'', ''DECISION:'' @ '' COMMAND'', ''COMMAND:'' @ '' ls -l''])
      = (''COMMAND'', ''ls -l'', ''listing'')"
proof -
  have a: "\<forall>l \<in> set (split_char CHR 0x0A (strip ''hello there'')).
          \<not> startswith l ''DECISION:'' \<and> \<not> startswith l ''COMMAND:''
          \<and> \<not> startswith l ''RESPONSE:''"
    by code_simp
  have b: "list_all py_isspace [CHR 0x0A, CHR 0x0A]
   \<and> CHR 0x0A \<notin> set '' COMMAND'' \<and> CHR 0x0A \<notin> set '' ls -l'' \<and> CHR 0x0A \<notin> set '' listing''"
    by code_simp
  have c: "(strip (replace_all ''DECISION:'' [] '' COMMAND''),
            strip (replace_all ''COMMAND:'' [] '' ls -l''),
            strip (replace_all ''RESPONSE:'' [] '' listing''))
           = (''COMMAND'', ''ls -l'', ''listing'')"
    by code_simp
  have d: "[''RESPONSE:'' @ '' listing'', ''DECISION:'' @ '' COMMAND'', ''COMMAND:'' @ '' ls -l'']
      \<in> set [[''DECISION:'' @ '' COMMAND'', ''COMMAND:'' @ '' ls -l'', ''RESPONSE:'' @ '' listing''],
             [''DECISION:'' @ '' COMMAND'', ''RESPONSE:'' @ '' listing'', ''COMMAND:'' @ '' ls -l''],
             [''COMMAND:'' @ '' ls -l'', ''DECISION:'' @ '' COMMAND'', ''RESPONSE:'' @ '' listing''],
             [''COMMAND:'' @ '' ls -l'', ''RESPONSE:'' @ '' listing'', ''DECISION:'' @ '' COMMAND''],
             [''RESPONSE:'' @ '' listing'', ''DECISION:'' @ '' COMMAND'', ''COMMAND:'' @ '' ls -l''],
             [''RESPONSE:'' @ '' listing'', ''COMMAND:'' @ '' ls -l'', ''DECISION:'' @ '' COMMAND'']]"
    by (simp only: list.set insert_iff simp_thms)
  note T = parse_ai_response_labels
      [of "''hello there''" "[CHR 0x0A, CHR 0x0A]" "'' COMMAND''" "'' ls -l''" "'' listing''"
          "[''RESPONSE:'' @ '' listing'', ''DECISION:'' @ '' COMMAND'', ''COMMAND:'' @ '' ls -l'']"]
  from T a have r1: "parse_ai_response ''hello there'' = (''CONVERSATION'', ''NONE'', [])"
    by blast
  from T b d have r2: "parse_ai_response ([CHR 0x0A, CHR 0x0A] @ join_with newline
        [''RESPONSE:'' @ '' listing'', ''DECISION:'' @ '' COMMAND'', ''COMMAND:'' @ '' ls -l''])
      = (strip (replace_all ''DECISION:'' [] '' COMMAND''),
            strip (replace_all ''COMMAND:'' [] '' ls -l''),
            strip (replace_all ''RESPONSE:'' [] '' listing''))"
    by blast
  have a': "split_char CHR 0x0A (strip ''hello there'') = [''hello there'']
   \<and> \<not> startswith ''hello there'' ''DECISION:'' \<and> \<not> startswith ''hello there'' ''COMMAND:''
   \<and> \<not> startswith ''hello there'' ''RESPONSE:''"
    by code_simp
  show ?thesis
    using a' r1 b r2 [unfolded c] by blast
qed

section \<open>Directory tracking on the remote backend\<close>

lemma normpath_nonempty: "normpath p \<noteq> []"
  by (simp add: normpath_def Let_def)

lemma path_estimate_truthy: "truthy (Some (path_estimate d t))"
  by (simp add: truthy_def path_estimate_def normpath_nonempty)

lemma track_loop_append:
  "track_loop remote pre d oc calls = (d1, oc1, calls1, False) \<Longrightarrow>
     track_loop remote (pre @ rest) d oc calls = track_loop remote rest d1 oc1 calls1"
proof (induction pre arbitrary: d oc calls)
  case Nil
  then show ?case by simp
next
  case (Cons part pre)
  show ?case
  proof (cases "part = '';'' \<or> part = ''&&''")
    case True
    with Cons show ?thesis by simp
  next
    case sep: False
    show ?thesis
    proof (cases "startswith part ''cd ''")
      case False
      with sep Cons show ?thesis by simp
    next
      case True
      obtain d' stop probes where t: "track_cd remote (length calls) part d = (d', stop, probes)"
        by (cases "track_cd remote (length calls) part d") auto
      with sep True Cons.prems have "\<not> stop" by (auto split: if_splits)
      with sep True t Cons show ?thesis by simp
    qed
  qed
qed

lemma track_cd_failed:
  assumes "shlex_split part = Some cd_parts" and "2 \<le> length cd_parts"
      and "remote_exec remote n (probe_command d (cd_parts ! 1)) = Exec_output output error"
      and "output = [] \<or> error \<noteq> []"
  shows "track_cd remote n part d
           = (Some (path_estimate d (cd_parts ! 1)), True,
              [Call_probe (probe_command d (cd_parts ! 1))])"
  using assms by (auto simp: track_cd_def Let_def)

lemma track_cd_raises:
  assumes "shlex_split part = Some cd_parts" and "2 \<le> length cd_parts"
      and "remote_exec remote n (probe_command d (cd_parts ! 1)) = Exec_raises e"
  shows "track_cd remote n part d = (d, False, [Call_probe (probe_command d (cd_parts ! 1))])"
  using assms by (auto simp: track_cd_def Let_def)

lemma track_loop_failed_probe:
  assumes pre: "track_loop remote pre d0 True [] = (d, oc, calls, False)"
      and cd: "startswith part ''cd ''"
      and parts: "shlex_split part = Some cd_parts" "2 \<le> length cd_parts"
      and probe: "remote_exec remote (length calls) (probe_command d (cd_parts ! 1))
                    = Exec_output output error"
      and failed: "output = [] \<or> error \<noteq> []"
  shows "track_loop remote (pre @ part # post) d0 True []
           = (Some (path_estimate d (cd_parts ! 1)), oc,
              calls @ [Call_probe (probe_command d (cd_parts ! 1))], True)"
proof -
  have nosep: "\<not> (part = '';'' \<or> part = ''&&'')"
    using cd by (auto simp: startswith_def)
  have "track_loop remote (pre @ part # post) d0 True []
          = track_loop remote (part # post) d oc calls"
    using pre by (rule track_loop_append)
  also have "\<dots> = (Some (path_estimate d (cd_parts ! 1)), oc,
              calls @ [Call_probe (probe_command d (cd_parts ! 1))], True)"
    using nosep cd track_cd_failed [OF parts probe failed] by simp
  finally show ?thesis .
qed


lemma track_loop_raised_probe:
  assumes pre: "track_loop remote pre d0 True [] = (d, oc, calls, False)"
      and cd: "startswith part ''cd ''"
      and parts: "shlex_split part = Some cd_parts" "2 \<le> length cd_parts"
      and probe: "remote_exec remote (length calls) (probe_command d (cd_parts ! 1))
                    = Exec_raises e"
  shows "track_loop remote (pre @ part # post) d0 True []
           = track_loop remote post d oc (calls @ [Call_probe (probe_command d (cd_parts ! 1))])"
proof -
  have nosep: "\<not> (part = '';'' \<or> part = ''&&'')"
    using cd by (auto simp: startswith_def)
  have "track_loop remote (pre @ part # post) d0 True []
          = track_loop remote (part # post) d oc calls"
    using pre by (rule track_loop_append)
  also have "\<dots> = track_loop remote post d oc
                      (calls @ [Call_probe (probe_command d (cd_parts ! 1))])"
    using nosep cd track_cd_raises [OF parts probe] by simp
  finally show ?thesis .
qed

lemma execute_after_failed_probe:
  assumes conn: "ssh_connected st" "ssh_client_handle st \<noteq> None"
      and cmds: "split_commands command = pre @ part # post" "pre \<noteq> [] \<or> post \<noteq> []"
      and track: "track_loop remote (pre @ part # post) (ssh_current_directory st) True []
                    = (Some est, oc, calls', True)"
      and est: "est \<noteq> []"
  shows "ssh_current_directory (fst (snd (ssh_execute_command remote command streaming st)))
           = Some est
       \<and> take (length calls' + 1) (snd (snd (ssh_execute_command remote command streaming st)))
           = calls' @ [(if streaming then Call_stream else Call_exec)
                        (''cd '' @ shlex_quote est @ '' && '' @ command)]"
proof -
  have len: "length (pre @ part # post) \<noteq> 1" using cmds(2) by (cases pre) auto
  show ?thesis
  proof (cases streaming)
    case True
    then show ?thesis
      using conn cmds(1) track est len
      by (auto simp: ssh_execute_command_def Let_def truthy_def ssh_execute_streaming_def
            split: stream_result.split)
  next
    case False
    then show ?thesis
      using conn cmds(1) track est len
      by (auto simp: ssh_execute_command_def Let_def truthy_def split: exec_result.split)
  qed
qed

subsection \<open>A probe that fails\<close>

text \<open>
  Claim C5 as stated fails when the probe raises: the exception is swallowed, so
  the tracker neither stops nor falls back. Here the first probe raises, the
  second \<open>cd\<close> segment is probed all the same, and the tracked directory becomes
  \<open>/srv/app\<close>, not the estimate \<open>/srv/nope\<close> for the segment whose probe failed.
\<close>

theorem raised_probe_counterexample:
  "ssh_execute_command flaky_remote ''cd nope && cd app; ls'' False example_ssh
     = ((True, Some (''bash: no such file or directory'' @ [CHR 0x0A])),
        example_ssh\<lparr>ssh_current_directory := Some ''/srv/app''\<rparr>,
        [Call_probe ''cd /srv && cd nope && pwd'', Call_probe ''cd /srv && cd app && pwd'',
         Call_exec ''cd /srv/app && cd nope && cd app; ls''])
   \<and> remote_exec flaky_remote 0 ''cd /srv && cd nope && pwd'' = Exec_raises ''timed out''
   \<and> normpath (path_join ''/srv'' ''nope'') = ''/srv/nope''"
  by code_simp

text \<open>
  Claim C5, amended. In a compound command on the remote backend, when the probe
  of a \<open>cd\<close> segment returns with a non-empty error text or an empty output, the
  tracker stops (no later segment is probed), the tracked directory becomes the
  estimate \<open>normpath(join(last_dir, target))\<close>, or \<open>normpath(target)\<close> when no
  directory is known, and the whole command is still executed, behind a \<open>cd\<close> into
  that estimate. When the probe raises instead, the tracker keeps \<open>last_dir\<close> and
  goes on with the segments that follow.
\<close>

theorem failed_probe_falls_back:
  assumes conn: "ssh_connected st" "ssh_client_handle st \<noteq> None"
      and cmds: "split_commands command = pre @ part # post" "pre \<noteq> [] \<or> post \<noteq> []"
      and pre: "track_loop remote pre (ssh_current_directory st) True [] = (d, oc, calls, False)"
      and cd: "startswith part ''cd ''"
      and parts: "shlex_split part = Some cd_parts" "2 \<le> length cd_parts"
  shows "(remote_exec remote (length calls) (probe_command d (cd_parts ! 1))
            = Exec_output out err \<and> (out = [] \<or> err \<noteq> [])
          \<longrightarrow> ssh_current_directory
                (fst (snd (ssh_execute_command remote command streaming st)))
                = Some (if truthy d then normpath (path_join (the d) (cd_parts ! 1))
                        else normpath (cd_parts ! 1))
              \<and> take (length calls + 2)
                  (snd (snd (ssh_execute_command remote command streaming st)))
                = calls @ [Call_probe (probe_command d (cd_parts ! 1)),
                           (if streaming then Call_stream else Call_exec)
                             (''cd '' @ shlex_quote (path_estimate d (cd_parts ! 1)) @ '' && ''
                              @ command)])
       \<and> (remote_exec remote (length calls) (probe_command d (cd_parts ! 1)) = Exec_raises e
          \<longrightarrow> track_loop remote (split_commands command) (ssh_current_directory st) True []
              = track_loop remote post d oc
                  (calls @ [Call_probe (probe_command d (cd_parts ! 1))]))"
proof (intro conjI impI)
  assume a: "remote_exec remote (length calls) (probe_command d (cd_parts ! 1))
            = Exec_output out err \<and> (out = [] \<or> err \<noteq> [])"
  let ?est = "path_estimate d (cd_parts ! 1)"
  let ?probe = "Call_probe (probe_command d (cd_parts ! 1))"
  have t: "track_loop remote (pre @ part # post) (ssh_current_directory st) True []
           = (Some ?est, oc, calls @ [?probe], True)"
    using a by (intro track_loop_failed_probe [OF pre cd parts]) blast+
  have est: "?est \<noteq> []" by (simp add: path_estimate_def normpath_nonempty)
  note r = execute_after_failed_probe [OF conn cmds t est, of streaming]
  show "ssh_current_directory (fst (snd (ssh_execute_command remote command streaming st)))
          = Some (if truthy d then normpath (path_join (the d) (cd_parts ! 1))
                  else normpath (cd_parts ! 1))"
    using r by (simp add: path_estimate_def)
  show "take (length calls + 2) (snd (snd (ssh_execute_command remote command streaming st)))
          = calls @ [?probe, (if streaming then Call_stream else Call_exec)
                               (''cd '' @ shlex_quote ?est @ '' && '' @ command)]"
    using r by simp
next
  assume "remote_exec remote (length calls) (probe_command d (cd_parts ! 1)) = Exec_raises e"
  then show "track_loop remote (split_commands command) (ssh_current_directory st) True []
              = track_loop remote post d oc
                  (calls @ [Call_probe (probe_command d (cd_parts ! 1))])"
    unfolding cmds(1) by (rule track_loop_raised_probe [OF pre cd parts])
qed


theorem failed_probe_falls_back_witness:
  "ssh_connected example_ssh \<and> ssh_client_handle example_ssh \<noteq> None
   \<and> split_commands ''cd nope && cd app; ls''
       = [] @ ''cd nope'' # [''&&'', ''cd app'', '';'', ''ls'']
   \<and> startswith ''cd nope'' ''cd ''
   \<and> shlex_split ''cd nope'' = Some [''cd'', ''nope'']
   \<and> remote_exec example_remote 0 ''cd /srv && cd nope && pwd''
       = Exec_output [] (''bash: no such file or directory'' @ [CHR 0x0A])
   \<and> ssh_current_directory
        (fst (snd (ssh_execute_command example_remote ''cd nope && cd app; ls'' False example_ssh)))
       = Some ''/srv/nope''
   \<and> take 2 (snd (snd (ssh_execute_command example_remote ''cd nope && cd app; ls'' False
                          example_ssh)))
       = [Call_probe ''cd /srv && cd nope && pwd'',
          Call_exec ''cd /srv/nope && cd nope && cd app; ls'']
   \<and> remote_exec flaky_remote 0 ''cd /srv && cd nope && pwd'' = Exec_raises ''timed out''
   \<and> track_loop flaky_remote (split_commands ''cd nope && cd app; ls'') (Some ''/srv'') True []
       = track_loop flaky_remote [''&&'', ''cd app'', '';'', ''ls''] (Some ''/srv'') True
           [Call_probe ''cd /srv && cd nope && pwd'']"
proof -
  have conn: "ssh_connected example_ssh" "ssh_client_handle example_ssh \<noteq> None"
    by (simp_all add: example_ssh_def)
  have dir: "ssh_current_directory example_ssh = Some ''/srv''"
    by (simp add: example_ssh_def)
  have split: "split_commands ''cd nope && cd app; ls''
       = [] @ ''cd nope'' # [''&&'', ''cd app'', '';'', ''ls'']"
    by code_simp
  have compound: "([]::string list) \<noteq> [] \<or> [''&&'', ''cd app'', '';'', ''ls''] \<noteq> []"
    by simp
  have pre: "track_loop r [] (ssh_current_directory example_ssh) True []
               = (Some ''/srv'', True, [], False)" for r
    by (simp add: dir)
  have cd: "startswith ''cd nope'' ''cd ''" by code_simp
  have parts: "shlex_split ''cd nope'' = Some [''cd'', ''nope'']" by code_simp
  have len: "2 \<le> length [''cd'', ''nope'']" by simp
  have pc: "probe_command (Some ''/srv'') ([''cd'', ''nope''] ! 1) = ''cd /srv && cd nope && pwd''"
    by code_simp
  have est: "path_estimate (Some ''/srv'') ([''cd'', ''nope''] ! 1) = ''/srv/nope''"
            "(if truthy (Some ''/srv'')
              then normpath (path_join (the (Some ''/srv'')) ([''cd'', ''nope''] ! 1))
              else normpath ([''cd'', ''nope''] ! 1)) = ''/srv/nope''"
            "shlex_quote ''/srv/nope'' = ''/srv/nope''"
    by code_simp+
  have failed: "remote_exec example_remote 0 ''cd /srv && cd nope && pwd''
       = Exec_output [] (''bash: no such file or directory'' @ [CHR 0x0A])"
    by code_simp
  have raised: "remote_exec flaky_remote 0 ''cd /srv && cd nope && pwd''
       = Exec_raises ''timed out''"
    by code_simp
  note T1 = failed_probe_falls_back [OF conn split compound pre cd parts len,
      where remote = example_remote and out = "[]"
        and err = "''bash: no such file or directory'' @ [CHR 0x0A]" and streaming = False]
  note T2 = failed_probe_falls_back [OF conn split compound pre cd parts len,
      where remote = flaky_remote and e = "''timed out''"]
  have r1: "ssh_current_directory
        (fst (snd (ssh_execute_command example_remote ''cd nope && cd app; ls'' False example_ssh)))
       = Some ''/srv/nope''
   \<and> take 2 (snd (snd (ssh_execute_command example_remote ''cd nope && cd app; ls'' False
                          example_ssh)))
       = [Call_probe ''cd /srv && cd nope && pwd'',
          Call_exec ''cd /srv/nope && cd nope && cd app; ls'']"
    using T1 failed unfolding pc est by (simp add: numeral_2_eq_2)
  have r2: "track_loop flaky_remote (split_commands ''cd nope && cd app; ls'') (Some ''/srv'') True []
       = track_loop flaky_remote [''&&'', ''cd app'', '';'', ''ls''] (Some ''/srv'') True
           [Call_probe ''cd /srv && cd nope && pwd'']"
    using T2 raised unfolding pc dir by simp
  show ?thesis
    using conn split cd parts failed raised r1 r2 by blast
qed

section \<open>\<open>cd\<close> commands on both backends\<close>

text \<open>
  Claim C6, evaluated on the code. The local home is \<open>/home/u\<close>. A bare \<open>cd\<close> on
  the local client in \<open>/tmp\<close> is not taken as a directory change: it is run as an
  ordinary command and the tracked directory stays \<open>/tmp\<close>. A bare \<open>cd\<close> on the
  remote client is run as an ordinary command too and leaves the tracked directory
  \<open>/srv\<close>. \<open>cd ~\<close> on the remote client probes the quoted target \<open>'~'\<close>, which the
  remote shell does not expand, and the tracked directory becomes \<open>/srv/~\<close>. Only
  \<open>cd ~\<close> on the local client reaches the home directory.
\<close>

theorem cd_home_not_resolved:
  "os_home example_os = Some ''/home/u''
   \<and> local_execute_command example_os ''cd'' False None example_local_tmp
       = ((True, []), example_local_tmp, [Call_run ''cd'' ''/tmp'' 30])
   \<and> ssh_execute_command example_remote ''cd'' False example_ssh
       = ((True, Some (''bash: no such file or directory'' @ [CHR 0x0A])), example_ssh,
          [Call_exec ''cd /srv && cd''])
   \<and> ssh_execute_command example_remote ''cd ~'' False example_ssh
       = ((True, Some ''/srv/~''), example_ssh\<lparr>ssh_current_directory := Some ''/srv/~''\<rparr>,
          [Call_probe (''cd /srv && cd '' @ [CHR 0x27] @ ''~'' @ [CHR 0x27] @ '' && pwd'')])
   \<and> local_execute_command example_os ''cd ~'' False None example_local_tmp
       = ((True, []), example_local_tmp\<lparr>local_current_directory := ''/home/u''\<rparr>,
          [Call_chdir ''/home/u''])"
  by code_simp

text \<open>
  The inputs of that evaluation pass the guards of both clients: the remote client
  is connected and holds a transport, and the directories that end up tracked are
  the ones named above.
\<close>

theorem cd_home_not_resolved_witness:
  "ssh_connected example_ssh \<and> ssh_client_handle example_ssh \<noteq> None
   \<and> local_current_directory
        (fst (snd (local_execute_command example_os ''cd'' False None example_local_tmp)))
       = ''/tmp''
   \<and> ssh_current_directory
        (fst (snd (ssh_execute_command example_remote ''cd'' False example_ssh)))
       = Some ''/srv''
   \<and> ssh_current_directory
        (fst (snd (ssh_execute_command example_remote ''cd ~'' False example_ssh)))
       = Some ''/srv/~''"
  using cd_home_not_resolved
  by (simp add: example_ssh_def example_local_tmp_def)

subsection \<open>A command that is a single \<open>cd\<close>\<close>

text \<open>
  Claim C1 as stated fails on the local backend: a successful \<open>cd /tmp\<close> returns the
  empty output, not the resolved path.
\<close>

theorem local_cd_output_counterexample:
  "local_execute_command example_os ''cd /tmp'' False None example_local
     = ((True, []), example_local\<lparr>local_current_directory := ''/tmp''\<rparr>, [Call_chdir ''/tmp''])
   \<and> snd (fst (local_execute_command example_os ''cd /tmp'' False None example_local)) \<noteq> ''/tmp''"
  by code_simp

lemma local_single_cd:
  assumes "startswith (lower (strip command)) ''cd ''"
      and "os_chdir os (local_cd_path os st (strip command)) = Chdir_ok cwd"
  shows "local_execute_command os command streaming timeout st
           = ((True, []), st\<lparr>local_current_directory := cwd\<rparr>,
              [Call_chdir (local_cd_path os st (strip command))])"
  using assms by (simp add: local_execute_command_def Let_def)

lemma ssh_single_cd:
  assumes "ssh_connected st" "ssh_client_handle st \<noteq> None"
      and "split_commands command = [part]" "startswith part ''cd ''"
      and "shlex_split part = Some cd_parts" "2 \<le> length cd_parts"
  shows "(let resolved =
              (case remote_exec remote 0 (probe_command (ssh_current_directory st) (cd_parts ! 1)) of
                 Exec_raises e \<Rightarrow> ssh_current_directory st
               | Exec_output out err \<Rightarrow>
                   if out \<noteq> [] \<and> err = []
                   then (if splitlines (strip out) = [] then ssh_current_directory st
                         else Some (last (splitlines (strip out))))
                   else Some (path_estimate (ssh_current_directory st) (cd_parts ! 1)))
         in ssh_execute_command remote command streaming st
              = ((True, resolved),
                 (if truthy resolved then st\<lparr>ssh_current_directory := resolved\<rparr> else st),
                 [Call_probe (probe_command (ssh_current_directory st) (cd_parts ! 1))]))"
proof -
  have nosep: "\<not> (part = '';'' \<or> part = ''&&'')"
    using assms(4) by (auto simp: startswith_def)
  show ?thesis
    using assms nosep
    by (auto simp: ssh_execute_command_def Let_def track_cd_def
          split: exec_result.split list.split)
qed


text \<open>
  Claim C1, amended. A command that is a single \<open>cd <path>\<close> segment is handled as
  directory navigation only, on both backends. On the local backend, when the
  change of directory succeeds, the only call is that change into the path joined
  to the prior tracked directory, the tracked directory becomes the directory the
  system reports, and the call returns success with an empty output. On the remote
  backend (connected, target parsed) the only call is the probe; the call returns
  success with the resolved directory as output, and that directory is tracked when
  it is not empty: it is the last line the probe printed, or the estimate
  \<open>normpath(join(prior, path))\<close> when the probe reports failure, or the prior
  directory when the probe raises or prints blank space only.
\<close>

theorem single_cd_is_navigation_only:
  assumes "startswith (lower (strip local_command)) ''cd ''"
      and "os_chdir os (local_cd_path os lst (strip local_command)) = Chdir_ok cwd"
      and "ssh_connected st" "ssh_client_handle st \<noteq> None"
      and "split_commands command = [part]" "startswith part ''cd ''"
      and "shlex_split part = Some cd_parts" "2 \<le> length cd_parts"
  shows "local_execute_command os local_command streaming timeout lst
           = ((True, []), lst\<lparr>local_current_directory := cwd\<rparr>,
              [Call_chdir (local_cd_path os lst (strip local_command))])
       \<and> (let resolved =
              (case remote_exec remote 0 (probe_command (ssh_current_directory st) (cd_parts ! 1)) of
                 Exec_raises e \<Rightarrow> ssh_current_directory st
               | Exec_output out err \<Rightarrow>
                   if out \<noteq> [] \<and> err = []
                   then (if splitlines (strip out) = [] then ssh_current_directory st
                         else Some (last (splitlines (strip out))))
                   else Some (path_estimate (ssh_current_directory st) (cd_parts ! 1)))
           in ssh_execute_command remote command streaming st
                = ((True, resolved),
                   (if truthy resolved then st\<lparr>ssh_current_directory := resolved\<rparr> else st),
                   [Call_probe (probe_command (ssh_current_directory st) (cd_parts ! 1))]))"
  using local_single_cd [OF assms(1,2)] ssh_single_cd [OF assms(3-8)] by simp

theorem single_cd_is_navigation_only_witness:
  "startswith (lower (strip ''cd /tmp'')) ''cd ''
   \<and> os_chdir example_os (local_cd_path example_os example_local (strip ''cd /tmp''))
       = Chdir_ok ''/tmp''
   \<and> ssh_connected example_ssh \<and> ssh_client_handle example_ssh \<noteq> None
   \<and> split_commands ''cd app'' = [''cd app''] \<and> startswith ''cd app'' ''cd ''
   \<and> shlex_split ''cd app'' = Some [''cd'', ''app'']
   \<and> local_execute_command example_os ''cd /tmp'' False None example_local
       = ((True, []), example_local\<lparr>local_current_directory := ''/tmp''\<rparr>, [Call_chdir ''/tmp''])
   \<and> ssh_execute_command example_remote ''cd app'' False example_ssh
       = ((True, Some ''/srv/app''), example_ssh\<lparr>ssh_current_directory := Some ''/srv/app''\<rparr>,
          [Call_probe ''cd /srv && cd app && pwd''])"
proof -
  have l1: "startswith (lower (strip ''cd /tmp'')) ''cd ''" by code_simp
  have p: "local_cd_path example_os example_local (strip ''cd /tmp'') = ''/tmp''" by code_simp
  have l2: "os_chdir example_os (local_cd_path example_os example_local (strip ''cd /tmp''))
       = Chdir_ok ''/tmp''"
    unfolding p by code_simp
  have r1: "ssh_connected example_ssh" "ssh_client_handle example_ssh \<noteq> None"
    by (simp_all add: example_ssh_def)
  have r2: "split_commands ''cd app'' = [''cd app'']" by code_simp
  have r3: "startswith ''cd app'' ''cd ''" by code_simp
  have r4: "shlex_split ''cd app'' = Some [''cd'', ''app'']" by code_simp
  have r5: "2 \<le> length [''cd'', ''app'']" by simp
  have dir: "ssh_current_directory example_ssh = Some ''/srv''" by (simp add: example_ssh_def)
  have pc: "probe_command (Some ''/srv'') ([''cd'', ''app''] ! 1) = ''cd /srv && cd app && pwd''"
    by code_simp
  have ex: "remote_exec example_remote 0 ''cd /srv && cd app && pwd''
              = Exec_output ''/srv/app\<newline>'' []"
    by code_simp
  have sl: "splitlines (strip ''/srv/app\<newline>'') = [''/srv/app'']" by code_simp
  note T = single_cd_is_navigation_only [OF l1 l2 r1 r2 r3 r4 r5,
      where remote = example_remote and streaming = False and timeout = None]
  have a: "local_execute_command example_os ''cd /tmp'' False None example_local
       = ((True, []), example_local\<lparr>local_current_directory := ''/tmp''\<rparr>, [Call_chdir ''/tmp''])"
    using T unfolding p by simp
  have b: "ssh_execute_command example_remote ''cd app'' False example_ssh
       = ((True, Some ''/srv/app''), example_ssh\<lparr>ssh_current_directory := Some ''/srv/app''\<rparr>,
          [Call_probe ''cd /srv && cd app && pwd''])"
    using T unfolding dir pc ex by (simp add: sl truthy_def Let_def)
  show ?thesis
    using l1 l2 r1 r2 r3 r4 a b by blast
qed

end
